theory Spec2Isabelle
  imports Main "HOL-Library.AList"
begin

section \<open>Python values and exceptions\<close>

text \<open>
  The task runner of \<^verbatim>\<open>src/qudi/logic/taskrunner.py\<close> passes untyped Python values
  around (\<^verbatim>\<open>args\<close>, \<^verbatim>\<open>kwargs\<close>, a task's \<^verbatim>\<open>result\<close>). They are modelled by the
  datatype below. A dictionary is an association list in insertion order.
  Naming: a leading underscore of a Python name is written \<open>u_\<close>, the two leading
  underscores of a private method \<open>uu_\<close>.
\<close>

datatype pyval =
    PyNone
  | PyInt int
  | PyStr string
  | PyTuple "pyval list"
  | PyList "pyval list"
  | PyDict "(pyval \<times> pyval) list"

text \<open>Exceptions carry their message (for a \<^verbatim>\<open>KeyError\<close> raised by a lookup, the key).
  The messages of exceptions raised by Python built-ins are abbreviated.\<close>

datatype exn =
    KeyError string
  | TypeError string
  | RuntimeError string
  | ValueError string

fun is_RuntimeError :: "exn \<Rightarrow> bool" where
  "is_RuntimeError (RuntimeError _) = True"
| "is_RuntimeError _ = False"

text \<open>\<^verbatim>\<open>iter(v)\<close>: the elements that iterating over a value yields.\<close>

fun py_iter :: "pyval \<Rightarrow> exn + pyval list" where
  "py_iter (PyStr s) = Inr (map (\<lambda>ch. PyStr [ch]) s)"
| "py_iter (PyTuple xs) = Inr xs"
| "py_iter (PyList xs) = Inr xs"
| "py_iter (PyDict kvs) = Inr (map fst kvs)"
| "py_iter PyNone = Inl (TypeError ''object is not iterable'')"
| "py_iter (PyInt i) = Inl (TypeError ''object is not iterable'')"

text \<open>\<^verbatim>\<open>tuple(v)\<close>.\<close>

definition py_tuple :: "pyval \<Rightarrow> exn + pyval" where
  "py_tuple v = (case py_iter v of Inl e \<Rightarrow> Inl e | Inr xs \<Rightarrow> Inr (PyTuple xs))"

fun hashable :: "pyval \<Rightarrow> bool" where
  "hashable (PyTuple xs) = (\<forall>x \<in> set xs. hashable x)"
| "hashable (PyList xs) = False"
| "hashable (PyDict kvs) = False"
| "hashable PyNone = True"
| "hashable (PyInt i) = True"
| "hashable (PyStr s) = True"

text \<open>\<^verbatim>\<open>dict(v)\<close> for a value that is not a mapping: every element must itself be
  an iterable of exactly two elements, the first one hashable.\<close>

fun dict_update_seq :: "pyval list \<Rightarrow> (pyval \<times> pyval) list \<Rightarrow> exn + (pyval \<times> pyval) list" where
  "dict_update_seq [] d = Inr d"
| "dict_update_seq (x # xs) d =
     (case py_iter x of
        Inl e \<Rightarrow> Inl (TypeError ''cannot convert dictionary update sequence element to a sequence'')
      | Inr [k, v] \<Rightarrow>
          (if hashable k then dict_update_seq xs (AList.update k v d)
           else Inl (TypeError ''unhashable type''))
      | Inr _ \<Rightarrow> Inl (ValueError ''dictionary update sequence element has wrong length; 2 is required''))"

definition py_dict :: "pyval \<Rightarrow> exn + pyval" where
  "py_dict v =
     (case v of
        PyDict kvs \<Rightarrow> Inr (PyDict kvs)
      | _ \<Rightarrow> (case py_iter v of
                Inl e \<Rightarrow> Inl e
              | Inr xs \<Rightarrow> (case dict_update_seq xs [] of Inl e \<Rightarrow> Inl e | Inr d \<Rightarrow> Inr (PyDict d))))"

text \<open>\<^verbatim>\<open>isinstance(v, Iterable)\<close>, \<^verbatim>\<open>isinstance(v, Mapping)\<close>, \<^verbatim>\<open>isinstance(v, str)\<close>.\<close>

fun is_Iterable :: "pyval \<Rightarrow> bool" where
  "is_Iterable PyNone = False"
| "is_Iterable (PyInt i) = False"
| "is_Iterable _ = True"

fun is_Mapping :: "pyval \<Rightarrow> bool" where
  "is_Mapping (PyDict kvs) = True"
| "is_Mapping _ = False"

fun is_str :: "pyval \<Rightarrow> bool" where
  "is_str (PyStr s) = True"
| "is_str _ = False"

text \<open>\<^verbatim>\<open>all(isinstance(kw, str) for kw in kwargs)\<close>, for a mapping \<^verbatim>\<open>kwargs\<close>.\<close>

fun all_str_keys :: "pyval \<Rightarrow> bool" where
  "all_str_keys (PyDict kvs) = list_all is_str (map fst kvs)"
| "all_str_keys _ = False"

text \<open>\<^verbatim>\<open>s.rsplit(sep, 1)\<close>: split at the last occurrence of the separator.\<close>

definition rsplit1 :: "char \<Rightarrow> string \<Rightarrow> string list" where
  "rsplit1 sep s =
     (if sep \<in> set s
      then [rev (drop 1 (dropWhile (\<lambda>ch. ch \<noteq> sep) (rev s))), rev (takeWhile (\<lambda>ch. ch \<noteq> sep) (rev s))]
      else [s])"

text \<open>The tuple assignment \<^verbatim>\<open>module, cls = ...\<close>.\<close>

fun unpack2 :: "string list \<Rightarrow> exn + (string \<times> string)" where
  "unpack2 [a, b] = Inr (a, b)"
| "unpack2 [] = Inl (ValueError ''not enough values to unpack'')"
| "unpack2 [a] = Inl (ValueError ''not enough values to unpack'')"
| "unpack2 _ = Inl (ValueError ''too many values to unpack'')"

section \<open>Tasks, collaborators and the runner's state\<close>

text \<open>
  A \<^verbatim>\<open>ModuleTask\<close> instance as the runner sees it: the attributes it writes
  (\<^verbatim>\<open>args\<close>, \<^verbatim>\<open>kwargs\<close>), the ones it reads (\<^verbatim>\<open>result\<close>, \<^verbatim>\<open>success\<close>), the thread the
  object lives in (\<^verbatim>\<open>task.thread()\<close>, by the thread's name) and the slots connected to
  its two signals. A slot \<^verbatim>\<open>partial(callback, name=name)\<close> is identified by the bound name.
\<close>

record module_task =
  args :: pyval
  kwargs :: pyval
  result :: pyval
  success :: bool
  thread :: string
  sigFinished :: "string list"
  sigStateChanged :: "string list"

text \<open>A configured task class: whether \<^verbatim>\<open>issubclass(task, ModuleTask)\<close> holds and what
  calling it yields (an instance, or the exception its constructor raises).\<close>

record task_type =
  is_ModuleTask :: bool
  instantiate :: "exn + module_task"

text \<open>An entry of the module manager: whether \<^verbatim>\<open>module.activate()\<close> raises, and
  \<^verbatim>\<open>module.instance\<close>.\<close>

record managed_module =
  activate :: "exn option"
  module_instance :: string

text \<open>
  The collaborators whose code is outside the file are parameters:
  \<^verbatim>\<open>import_module_script(module, cls)\<close>, \<^verbatim>\<open>module_manager[module_name]\<close>,
  \<^verbatim>\<open>task.connect_modules(connect_targets)\<close> and \<^verbatim>\<open>thread_manager.get_new_thread(name=...)\<close>
  (which returns a thread, \<^verbatim>\<open>None\<close>, or raises).
\<close>

record collaborators =
  import_module_script :: "string \<Rightarrow> string \<Rightarrow> exn + task_type"
  module_manager :: "string \<Rightarrow> exn + managed_module"
  connect_modules :: "module_task \<Rightarrow> (string \<times> string) list \<Rightarrow> exn option"
  get_new_thread :: "string \<Rightarrow> exn + string option"

text \<open>One entry of the \<^verbatim>\<open>module_tasks\<close> configuration: the values under the keys
  \<^verbatim>\<open>'module.Class'\<close> and \<^verbatim>\<open>'connect'\<close>, when present.\<close>

record task_cfg =
  module_Class :: "string option"
  connect :: "(string \<times> string) list option"

text \<open>
  Everything the runner does to the outside, and its own bookkeeping writes, in program
  order. \<open>TaskDisconnectModules\<close> stands for \<^verbatim>\<open>task.disconnect_modules()\<close>, \<open>TaskInterrupt\<close>
  for \<^verbatim>\<open>task.interrupt()\<close>, \<open>QuitThread\<close> and \<open>JoinThread\<close> for the thread manager's
  \<^verbatim>\<open>quit_thread\<close> and \<^verbatim>\<open>join_thread\<close>. These calls, like the emission of a signal and the
  calls on a thread object, are recorded and taken to return normally; the calls whose
  failure the runner handles are the parameters above.
\<close>

datatype event =
    LockAcquire
  | LockRelease
  | LogException string
  | SigStartTask string pyval pyval
  | SigTaskStarted string
  | SigTaskStateChanged string string
  | SigTaskFinished string pyval bool
  | ModuleActivate string
  | TaskConnectModules module_task "(string \<times> string) list"
  | TaskDisconnectModules module_task
  | TaskInterrupt module_task
  | GetNewThread string
  | ThreadStartedConnect string
  | ThreadFinishedConnect string string
  | ThreadStart string
  | QuitThread string
  | JoinThread string
  | RunningTasksSet string
  | RunningTasksPop string

record task_runner =
  u_module_task_configs :: "(string \<times> task_cfg) list"
  u_running_tasks :: "(string \<times> module_task) list"
  u_configured_task_types :: "(string \<times> task_type) list"
  sigStartTask_connections :: nat
  trace :: "event list"

text \<open>\<^verbatim>\<open>TaskRunner.__init__\<close>, with the value of the config option.\<close>

definition TaskRunner_init :: "(string \<times> task_cfg) list \<Rightarrow> task_runner" where
  "TaskRunner_init cfgs =
     \<lparr>u_module_task_configs = cfgs, u_running_tasks = [], u_configured_task_types = [],
      sigStartTask_connections = 0, trace = []\<rparr>"

definition effect :: "event \<Rightarrow> task_runner \<Rightarrow> task_runner" where
  "effect e s = s\<lparr>trace := trace s @ [e]\<rparr>"

text \<open>\<^verbatim>\<open>with self._thread_lock:\<close> releases the lock on every exit, also by an exception.\<close>

definition with_thread_lock :: "(task_runner \<Rightarrow> 'a \<times> task_runner) \<Rightarrow> task_runner \<Rightarrow> 'a \<times> task_runner" where
  "with_thread_lock body s = (case body (effect LockAcquire s) of (r, s') \<Rightarrow> (r, effect LockRelease s'))"

section \<open>Exceptions and log messages of the runner\<close>

definition err_duplicate :: "string \<Rightarrow> exn" where
  \<open>err_duplicate name = KeyError (''Duplicate task name "'' @ name @ ''" encountered in config'')\<close>

definition err_not_ModuleTask :: exn where
  "err_not_ModuleTask = TypeError ''Configured task is not a ModuleTask (sub)class''"

definition err_not_running :: "string \<Rightarrow> exn" where
  \<open>err_not_running name = RuntimeError (''No ModuleTask with name "'' @ name @ ''" running'')\<close>

definition err_already_initialized :: "string \<Rightarrow> exn" where
  \<open>err_already_initialized name = RuntimeError (''ModuleTask "'' @ name @ ''" is already initialized'')\<close>

definition err_args :: exn where
  "err_args = TypeError ''ModuleTask args must be iterable''"

definition err_kwargs :: exn where
  "err_kwargs = TypeError ''ModuleTask kwargs must be mapping with str type keys''"

definition err_no_thread :: "string \<Rightarrow> exn" where
  \<open>err_no_thread name = RuntimeError (''Unable to create QThread with name "ModuleTask-'' @ name @ ''"'')\<close>

text \<open>What a signal's \<^verbatim>\<open>disconnect()\<close> raises when no slot is connected to it.\<close>

definition err_disconnect :: exn where
  "err_disconnect = RuntimeError ''Failed to disconnect signal''"

definition log_init :: "string \<Rightarrow> string" where
  \<open>log_init name = ''Exception during initialization of ModuleTask "'' @ name @ ''":''\<close>

definition log_set_args :: string where
  "log_set_args = ''Exception during setting of arguments for ModuleTask:''"

definition log_connect :: "string \<Rightarrow> string" where
  \<open>log_connect name = ''Exception during modules connection for ModuleTask "'' @ name @ ''":''\<close>

definition log_thread :: string where
  "log_thread = ''Exception during thread creation:''"

section \<open>Activation and deactivation\<close>

text \<open>The two statements of the loop body of \<^verbatim>\<open>on_activate\<close> that resolve the task
  class: \<^verbatim>\<open>module, cls = task_cfg['module.Class'].rsplit('.', 1)\<close> and
  \<^verbatim>\<open>task = import_module_script(module, cls, reload=False)\<close>.\<close>

definition resolve_task_type :: "collaborators \<Rightarrow> task_cfg \<Rightarrow> exn + task_type" where
  "resolve_task_type c cfg =
     (case module_Class cfg of
        None \<Rightarrow> Inl (KeyError ''module.Class'')
      | Some mc \<Rightarrow>
         (case unpack2 (rsplit1 (CHR ''.'') mc) of
            Inl e \<Rightarrow> Inl e
          | Inr (mod_name, cls) \<Rightarrow> import_module_script c mod_name cls))"

fun configure_tasks :: "collaborators \<Rightarrow> (string \<times> task_cfg) list \<Rightarrow> task_runner \<Rightarrow> exn option \<times> task_runner" where
  "configure_tasks c [] s = (None, s)"
| "configure_tasks c ((name, cfg) # items) s =
     (if name \<in> fst ` set (u_configured_task_types s)
      then (Some (err_duplicate name), s)
      else case resolve_task_type c cfg of
        Inl e \<Rightarrow> (Some e, s)
      | Inr task \<Rightarrow>
         if \<not> is_ModuleTask task
         then (Some err_not_ModuleTask, s)
         else configure_tasks c items
                (s\<lparr>u_configured_task_types := AList.update name task (u_configured_task_types s)\<rparr>))"

text \<open>The configured class resolves, and passes the \<^verbatim>\<open>issubclass(task, ModuleTask)\<close> check.\<close>

definition resolves_to_ModuleTask :: "collaborators \<Rightarrow> task_cfg \<Rightarrow> bool" where
  "resolves_to_ModuleTask c cfg =
     (case resolve_task_type c cfg of Inl e \<Rightarrow> False | Inr task \<Rightarrow> is_ModuleTask task)"

definition on_activate :: "collaborators \<Rightarrow> task_runner \<Rightarrow> exn option \<times> task_runner" where
  "on_activate c s =
     (case configure_tasks c (u_module_task_configs s)
             (s\<lparr>u_running_tasks := [], u_configured_task_types := []\<rparr>) of
        (Some e, s') \<Rightarrow> (Some e, s')
      | (None, s') \<Rightarrow> (None, s'\<lparr>sigStartTask_connections := Suc (sigStartTask_connections s')\<rparr>))"

text \<open>In \<^verbatim>\<open>on_deactivate\<close> the loop body \<^verbatim>\<open>task.interrupt\<close> only reads an attribute, so the
  loop has no effect. A signal's \<^verbatim>\<open>disconnect()\<close> raises when nothing is connected.\<close>

definition on_deactivate :: "task_runner \<Rightarrow> exn option \<times> task_runner" where
  "on_deactivate s =
     (if sigStartTask_connections s = 0 then (Some err_disconnect, s)
      else (None, s\<lparr>sigStartTask_connections := 0, u_configured_task_types := []\<rparr>))"

section \<open>Public operations\<close>

definition run_task :: "task_runner \<Rightarrow> string \<Rightarrow> pyval \<Rightarrow> pyval \<Rightarrow> exn option \<times> task_runner" where
  "run_task s name args' kwargs' =
     with_thread_lock (\<lambda>s.
       case py_tuple args' of
         Inl e \<Rightarrow> (Some e, s)
       | Inr a \<Rightarrow>
          (case py_dict kwargs' of
             Inl e \<Rightarrow> (Some e, s)
           | Inr k \<Rightarrow> (None, effect (SigStartTask name a k) s))) s"

definition interrupt_task :: "task_runner \<Rightarrow> string \<Rightarrow> exn option \<times> task_runner" where
  \<open>interrupt_task s name =
     with_thread_lock (\<lambda>s.
       case map_of (u_running_tasks s) name of
         None \<Rightarrow> (Some (err_not_running name), s)
       | Some task \<Rightarrow> (None, effect (TaskInterrupt task) s)) s\<close>

section \<open>The start sequence\<close>

definition uu_init_task :: "task_runner \<Rightarrow> string \<Rightarrow> (exn + module_task) \<times> task_runner" where
  \<open>uu_init_task s name =
     (case (if name \<in> fst ` set (u_running_tasks s)
            then Inl (err_already_initialized name)
            else case map_of (u_configured_task_types s) name of
                   None \<Rightarrow> Inl (KeyError name)
                 | Some ty \<Rightarrow> instantiate ty) of
        Inl e \<Rightarrow>
          (Inl e, effect (LogException (log_init name)) s)
      | Inr task \<Rightarrow> (Inr task, s))\<close>

definition uu_set_task_arguments ::
  "task_runner \<Rightarrow> module_task \<Rightarrow> pyval \<Rightarrow> pyval \<Rightarrow> (exn + module_task) \<times> task_runner" where
  "uu_set_task_arguments s task args' kwargs' =
     (case (if \<not> is_Iterable args' then Inl err_args
            else if \<not> is_Mapping kwargs' \<or> \<not> all_str_keys kwargs'
            then Inl err_kwargs
            else Inr (task\<lparr>args := args', kwargs := kwargs'\<rparr>)) of
        Inl e \<Rightarrow> (Inl e, effect (LogException log_set_args) s)
      | Inr task' \<Rightarrow> (Inr task', s))"

text \<open>The loop of \<^verbatim>\<open>__activate_connect_task_modules\<close> over the items of the
  \<^verbatim>\<open>'connect'\<close> mapping, filling \<^verbatim>\<open>connect_targets\<close>.\<close>

fun activate_targets ::
  "collaborators \<Rightarrow> (string \<times> string) list \<Rightarrow> (string \<times> string) list \<Rightarrow> task_runner
     \<Rightarrow> (exn + (string \<times> string) list) \<times> task_runner" where
  "activate_targets c [] connect_targets s = (Inr connect_targets, s)"
| "activate_targets c ((conn_name, module_name) # items) connect_targets s =
     (case module_manager c module_name of
        Inl e \<Rightarrow> (Inl e, s)
      | Inr m \<Rightarrow>
         (case activate m of
            Some e \<Rightarrow> (Inl e, effect (ModuleActivate module_name) s)
          | None \<Rightarrow>
             activate_targets c items (AList.update conn_name (module_instance m) connect_targets)
               (effect (ModuleActivate module_name) s)))"

text \<open>The body of the \<^verbatim>\<open>try\<close> block of \<^verbatim>\<open>__activate_connect_task_modules\<close>.\<close>

definition connect_attempt ::
  "collaborators \<Rightarrow> task_runner \<Rightarrow> string \<Rightarrow> module_task \<Rightarrow> exn option \<times> task_runner" where
  "connect_attempt c s name task =
     (case map_of (u_module_task_configs s) name of
        None \<Rightarrow> (Some (KeyError name), s)
      | Some cfg \<Rightarrow>
         (case connect cfg of
            None \<Rightarrow> (Some (KeyError ''connect''), s)
          | Some items \<Rightarrow>
             (case activate_targets c items [] s of
                (Inl e, s1) \<Rightarrow> (Some e, s1)
              | (Inr connect_targets, s1) \<Rightarrow>
                  (connect_modules c task connect_targets,
                   effect (TaskConnectModules task connect_targets) s1))))"

definition uu_activate_connect_task_modules ::
  "collaborators \<Rightarrow> task_runner \<Rightarrow> string \<Rightarrow> module_task \<Rightarrow> exn option \<times> task_runner" where
  \<open>uu_activate_connect_task_modules c s name task =
     (case connect_attempt c s name task of
        (Some e, s1) \<Rightarrow>
          (Some e,
           effect (TaskDisconnectModules task)
             (effect (LogException (log_connect name)) s1))
      | (None, s1) \<Rightarrow> (None, s1))\<close>

definition uu_move_task_into_thread ::
  "collaborators \<Rightarrow> task_runner \<Rightarrow> string \<Rightarrow> module_task \<Rightarrow> (exn + module_task) \<times> task_runner" where
  \<open>uu_move_task_into_thread c s name task =
     (let s1 = effect (GetNewThread (''ModuleTask-'' @ name)) s in
      case (case get_new_thread c (''ModuleTask-'' @ name) of
              Inl e \<Rightarrow> Inl e
            | Inr None \<Rightarrow> Inl (err_no_thread name)
            | Inr (Some th) \<Rightarrow> Inr th) of
        Inl e \<Rightarrow>
          (Inl e, if is_RuntimeError e then effect (LogException log_thread) s1 else s1)
      | Inr th \<Rightarrow>
          (Inr (task\<lparr>thread := th\<rparr>),
           effect (ThreadFinishedConnect th name) (effect (ThreadStartedConnect th) s1)))\<close>

definition uu_connect_task_signals :: "string \<Rightarrow> module_task \<Rightarrow> module_task" where
  "uu_connect_task_signals name task =
     task\<lparr>sigFinished := sigFinished task @ [name], sigStateChanged := sigStateChanged task @ [name]\<rparr>"

definition uu_start_task :: "task_runner \<Rightarrow> string \<Rightarrow> module_task \<Rightarrow> task_runner" where
  "uu_start_task s name task =
     effect (ThreadStart (thread task))
       (effect (RunningTasksSet name)
          (s\<lparr>u_running_tasks := AList.update name task (u_running_tasks s)\<rparr>))"

definition u_run_task ::
  "collaborators \<Rightarrow> task_runner \<Rightarrow> string \<Rightarrow> pyval \<Rightarrow> pyval \<Rightarrow> exn option \<times> task_runner" where
  "u_run_task c s name args' kwargs' =
     with_thread_lock (\<lambda>s.
       case uu_init_task s name of
         (Inl e, s1) \<Rightarrow> (Some e, s1)
       | (Inr task, s1) \<Rightarrow>
          (case uu_set_task_arguments s1 task args' kwargs' of
             (Inl e, s2) \<Rightarrow> (Some e, s2)
           | (Inr task2, s2) \<Rightarrow>
              (case uu_activate_connect_task_modules c s2 name task2 of
                 (Some e, s3) \<Rightarrow> (Some e, s3)
               | (None, s3) \<Rightarrow>
                  (case uu_move_task_into_thread c s3 name task2 of
                     (Inl e, s4) \<Rightarrow> (Some e, s4)
                   | (Inr task4, s4) \<Rightarrow>
                       (None,
                        effect (SigTaskStarted name)
                          (uu_start_task s4 name (uu_connect_task_signals name task4))))))) s"

section \<open>Callbacks\<close>

definition u_task_finished_callback :: "task_runner \<Rightarrow> string \<Rightarrow> exn option \<times> task_runner" where
  "u_task_finished_callback s name =
     with_thread_lock (\<lambda>s.
       case map_of (u_running_tasks s) name of
         None \<Rightarrow> (None, s)
       | Some task \<Rightarrow>
          if sigFinished task = [] then (Some err_disconnect, s)
          else
            let task1 = task\<lparr>sigFinished := []\<rparr>;
                s1 = s\<lparr>u_running_tasks := AList.update name task1 (u_running_tasks s)\<rparr>
            in if sigStateChanged task1 = [] then (Some err_disconnect, s1)
               else
                 let task2 = task1\<lparr>sigStateChanged := []\<rparr>;
                     s2 = s1\<lparr>u_running_tasks := AList.update name task2 (u_running_tasks s1)\<rparr>
                 in (None,
                     effect (JoinThread (thread task2))
                       (effect (QuitThread (thread task2))
                          (effect (TaskDisconnectModules task2) s2)))) s"

definition u_thread_finished_callback :: "task_runner \<Rightarrow> string \<Rightarrow> exn option \<times> task_runner" where
  "u_thread_finished_callback s name =
     with_thread_lock (\<lambda>s.
       case map_of (u_running_tasks s) name of
         None \<Rightarrow> (None, s)
       | Some task \<Rightarrow>
          (None,
           effect (SigTaskFinished name (result task) (success task))
             (effect (RunningTasksPop name)
                (s\<lparr>u_running_tasks := AList.delete name (u_running_tasks s)\<rparr>)))) s"

definition u_task_state_changed_callback :: "task_runner \<Rightarrow> string \<Rightarrow> string \<Rightarrow> task_runner" where
  "u_task_state_changed_callback s state name = effect (SigTaskStateChanged name state) s"

text \<open>Delivery of a task's \<^verbatim>\<open>sigStateChanged(state)\<close>: every connected slot
  \<^verbatim>\<open>partial(self._task_state_changed_callback, name=name)\<close> is called with the state.\<close>

definition sigStateChanged_emit :: "task_runner \<Rightarrow> module_task \<Rightarrow> string \<Rightarrow> task_runner" where
  "sigStateChanged_emit s task state =
     fold (\<lambda>name s. u_task_state_changed_callback s state name) (sigStateChanged task) s"

text \<open>The completion sequence of a run followed by its termination sequence: the task's
  \<^verbatim>\<open>sigFinished\<close> calls \<^verbatim>\<open>_task_finished_callback\<close>, which stops the thread, whose
  \<^verbatim>\<open>finished\<close> signal calls \<^verbatim>\<open>_thread_finished_callback\<close>.\<close>

definition completion_then_termination :: "task_runner \<Rightarrow> string \<Rightarrow> task_runner" where
  "completion_then_termination s name =
     snd (u_thread_finished_callback (snd (u_task_finished_callback s name)) name)"

text \<open>The task object after a successful start sequence, from the fresh instance \<open>t0\<close>.\<close>

definition started_task :: "string \<Rightarrow> module_task \<Rightarrow> pyval \<Rightarrow> pyval \<Rightarrow> string \<Rightarrow> module_task" where
  "started_task name t0 a k th =
     t0\<lparr>args := a, kwargs := k, thread := th,
        sigFinished := sigFinished t0 @ [name], sigStateChanged := sigStateChanged t0 @ [name]\<rparr>"

section \<open>Histories of calls\<close>

text \<open>The entry points of the runner, and the states reached by calling them in any
  order, each call with the collaborators' behaviour at that moment. \<open>WorkerSetsResult\<close>
  is the running task storing its outcome in its own attributes.\<close>

datatype call =
    OnActivate collaborators
  | OnDeactivate
  | RunTask string pyval pyval
  | InterruptTask string
  | URunTask collaborators string pyval pyval
  | TaskFinishedCallback string
  | ThreadFinishedCallback string
  | TaskStateChangedCallback string string
  | WorkerSetsResult string pyval bool

fun apply_call :: "task_runner \<Rightarrow> call \<Rightarrow> task_runner" where
  "apply_call s (OnActivate c) = snd (on_activate c s)"
| "apply_call s OnDeactivate = snd (on_deactivate s)"
| "apply_call s (RunTask name a k) = snd (run_task s name a k)"
| "apply_call s (InterruptTask name) = snd (interrupt_task s name)"
| "apply_call s (URunTask c name a k) = snd (u_run_task c s name a k)"
| "apply_call s (TaskFinishedCallback name) = snd (u_task_finished_callback s name)"
| "apply_call s (ThreadFinishedCallback name) = snd (u_thread_finished_callback s name)"
| "apply_call s (TaskStateChangedCallback state name) = u_task_state_changed_callback s state name"
| "apply_call s (WorkerSetsResult name r ok) =
     s\<lparr>u_running_tasks := map (\<lambda>(n, task). if n = name then (n, task\<lparr>result := r, success := ok\<rparr>) else (n, task))
                              (u_running_tasks s)\<rparr>"

definition run_calls :: "task_runner \<Rightarrow> call list \<Rightarrow> task_runner" where
  "run_calls s calls = fold (\<lambda>call s. apply_call s call) calls s"

text \<open>Every running name is a configured one.\<close>

definition registered :: "task_runner \<Rightarrow> bool" where
  "registered s = (fst ` set (u_running_tasks s) \<subseteq> fst ` set (u_configured_task_types s))"

section \<open>Reading a trace\<close>

text \<open>The events that happen while the lock is held.\<close>

fun held_events :: "bool \<Rightarrow> event list \<Rightarrow> event list" where
  "held_events held [] = []"
| "held_events held (LockAcquire # es) = held_events True es"
| "held_events held (LockRelease # es) = held_events False es"
| "held_events held (e # es) = (if held then e # held_events held es else held_events held es)"

fun is_JoinThread :: "event \<Rightarrow> bool" where
  "is_JoinThread (JoinThread th) = True"
| "is_JoinThread _ = False"

definition join_outside_lock :: "event list \<Rightarrow> bool" where
  "join_outside_lock tr = (\<not> list_ex is_JoinThread (held_events False tr))"

text \<open>The events of the observer channel.\<close>

fun is_published :: "event \<Rightarrow> bool" where
  "is_published (SigTaskStarted name) = True"
| "is_published (SigTaskStateChanged name state) = True"
| "is_published (SigTaskFinished name r ok) = True"
| "is_published _ = False"

fun is_SigTaskFinished :: "event \<Rightarrow> bool" where
  "is_SigTaskFinished (SigTaskFinished name r ok) = True"
| "is_SigTaskFinished _ = False"

text \<open>The events of resource connection and of worker threads.\<close>

fun is_connection :: "event \<Rightarrow> bool" where
  "is_connection (ModuleActivate m) = True"
| "is_connection (TaskConnectModules task targets) = True"
| "is_connection _ = False"

text \<open>The events since an earlier state.\<close>

definition new_events :: "task_runner \<Rightarrow> task_runner \<Rightarrow> event list" where
  "new_events s s' = drop (length (trace s)) (trace s')"

section \<open>The argument shapes the specification names\<close>

text \<open>An ordered sequence (\<^verbatim>\<open>str\<close>, \<^verbatim>\<open>tuple\<close>, \<^verbatim>\<open>list\<close>) and a string-keyed mapping, as the
  specification words the requirement on \<^verbatim>\<open>args\<close> and \<^verbatim>\<open>kwargs\<close>.\<close>

fun spec_ordered_sequence :: "pyval \<Rightarrow> bool" where
  "spec_ordered_sequence (PyStr s) = True"
| "spec_ordered_sequence (PyTuple xs) = True"
| "spec_ordered_sequence (PyList xs) = True"
| "spec_ordered_sequence _ = False"

definition spec_string_keyed_mapping :: "pyval \<Rightarrow> bool" where
  "spec_string_keyed_mapping v = (is_Mapping v \<and> all_str_keys v)"

section \<open>An example configuration\<close>

text \<open>A fresh task instance, a task \<^verbatim>\<open>"echo"\<close> that has been started and has stored its
  result, and collaborators under which every step succeeds.\<close>

definition example_task :: module_task where
  "example_task = \<lparr>args = PyTuple [], kwargs = PyDict [], result = PyNone, success = False,
     thread = ''main'', sigFinished = [], sigStateChanged = []\<rparr>"

definition example_running :: module_task where
  "example_running = \<lparr>args = PyTuple [PyInt 42], kwargs = PyDict [], result = PyInt 42, success = True,
     thread = ''ModuleTask-echo'', sigFinished = [''echo''], sigStateChanged = [''echo'']\<rparr>"

definition example_type :: task_type where
  "example_type = \<lparr>is_ModuleTask = True, instantiate = Inr example_task\<rparr>"

text \<open>A class that is not a subclass of \<^verbatim>\<open>ModuleTask\<close>.\<close>

definition example_not_a_task :: task_type where
  "example_not_a_task = \<lparr>is_ModuleTask = False, instantiate = Inr example_task\<rparr>"

definition example_cfgs :: "(string \<times> task_cfg) list" where
  "example_cfgs =
     [(''echo'', \<lparr>module_Class = Some ''tasks.echo.Echo'', connect = Some []\<rparr>),
      (''c'', \<lparr>module_Class = Some ''tasks.c.C'',
               connect = Some [(''first'', ''m1''), (''second'', ''m2''), (''third'', ''m3'')]\<rparr>)]"

definition example_collaborators :: collaborators where
  "example_collaborators =
     \<lparr>import_module_script = (\<lambda>mod_name cls. Inr example_type),
      module_manager = (\<lambda>m. if m = ''m2'' then Inl (KeyError ''m2'')
                            else Inr \<lparr>activate = None, module_instance = m\<rparr>),
      connect_modules = (\<lambda>task targets. None),
      get_new_thread = (\<lambda>label. Inr (Some label))\<rparr>"

definition example_state :: task_runner where
  "example_state =
     \<lparr>u_module_task_configs = example_cfgs,
      u_running_tasks = [(''echo'', example_running)],
      u_configured_task_types = [(''echo'', example_type), (''c'', example_type)],
      sigStartTask_connections = 1, trace = []\<rparr>"

section \<open>Auxiliary facts\<close>

lemma map_of_None_iff: "(map_of xs k = None) = (k \<notin> fst ` set xs)"
  by (simp add: map_of_eq_None_iff)

lemma activate_targets_trace:
  "\<exists>evs. snd (activate_targets c items ct s) = s\<lparr>trace := trace s @ evs\<rparr> \<and> list_all is_connection evs"
proof (induction items arbitrary: ct s)
  case Nil
  have "snd (activate_targets c [] ct s) = s\<lparr>trace := trace s @ []\<rparr> \<and> list_all is_connection []"
    by simp
  then show ?case by blast
next
  case (Cons item items)
  obtain conn_name mname where item: "item = (conn_name, mname)"
    by (cases item)
  show ?case
  proof (cases "module_manager c mname")
    case (Inl e)
    then have "snd (activate_targets c (item # items) ct s) = s\<lparr>trace := trace s @ []\<rparr> \<and> list_all is_connection []"
      by (simp add: item)
    then show ?thesis by blast
  next
    case (Inr m)
    show ?thesis
    proof (cases "activate m")
      case (Some e)
      with Inr have "snd (activate_targets c (item # items) ct s) = s\<lparr>trace := trace s @ [ModuleActivate mname]\<rparr>
          \<and> list_all is_connection [ModuleActivate mname]"
        by (simp add: item effect_def)
      then show ?thesis by blast
    next
      case None
      from Cons.IH [of "AList.update conn_name (module_instance m) ct" "effect (ModuleActivate mname) s"]
      obtain evs where evs:
        "snd (activate_targets c items (AList.update conn_name (module_instance m) ct) (effect (ModuleActivate mname) s))
           = (effect (ModuleActivate mname) s)\<lparr>trace := trace (effect (ModuleActivate mname) s) @ evs\<rparr>"
        "list_all is_connection evs"
        by blast
      with Inr None have "snd (activate_targets c (item # items) ct s) = s\<lparr>trace := trace s @ (ModuleActivate mname # evs)\<rparr>
          \<and> list_all is_connection (ModuleActivate mname # evs)"
        by (simp add: item effect_def)
      then show ?thesis by blast
    qed
  qed
qed

lemma connect_attempt_trace:
  "\<exists>evs. snd (connect_attempt c s name task) = s\<lparr>trace := trace s @ evs\<rparr> \<and> list_all is_connection evs"
proof (cases "map_of (u_module_task_configs s) name")
  case None
  then have "snd (connect_attempt c s name task) = s\<lparr>trace := trace s @ []\<rparr> \<and> list_all is_connection []"
    by (simp add: connect_attempt_def)
  then show ?thesis by blast
next
  case (Some cfg)
  show ?thesis
  proof (cases "connect cfg")
    case None
    with Some have "snd (connect_attempt c s name task) = s\<lparr>trace := trace s @ []\<rparr> \<and> list_all is_connection []"
      by (simp add: connect_attempt_def)
    then show ?thesis by blast
  next
    case (Some items)
    obtain evs where evs: "snd (activate_targets c items [] s) = s\<lparr>trace := trace s @ evs\<rparr>"
      "list_all is_connection evs"
      using activate_targets_trace by blast
    obtain r s1 where r: "activate_targets c items [] s = (r, s1)"
      by (cases "activate_targets c items [] s")
    with evs have s1: "s1 = s\<lparr>trace := trace s @ evs\<rparr>" by simp
    show ?thesis
    proof (cases r)
      case (Inl e)
      with r s1 Some \<open>map_of (u_module_task_configs s) name = Some cfg\<close>
      have "snd (connect_attempt c s name task) = s\<lparr>trace := trace s @ evs\<rparr>"
        by (simp add: connect_attempt_def)
      with evs(2) show ?thesis by blast
    next
      case (Inr targets)
      with r s1 Some \<open>map_of (u_module_task_configs s) name = Some cfg\<close>
      have "snd (connect_attempt c s name task) = s\<lparr>trace := trace s @ (evs @ [TaskConnectModules task targets])\<rparr>"
        by (simp add: connect_attempt_def effect_def)
      moreover have "list_all is_connection (evs @ [TaskConnectModules task targets])"
        using evs(2) by simp
      ultimately show ?thesis by blast
    qed
  qed
qed

lemma uu_init_task_cases:
  "(\<exists>e. uu_init_task s name = (Inl e, effect (LogException (log_init name)) s))
   \<or> (\<exists>ty t0. name \<notin> fst ` set (u_running_tasks s) \<and> map_of (u_configured_task_types s) name = Some ty
         \<and> instantiate ty = Inr t0 \<and> uu_init_task s name = (Inr t0, s))"
  by (auto simp: uu_init_task_def split: sum.splits option.splits)

lemma uu_set_task_arguments_cases:
  "(\<exists>e. uu_set_task_arguments s task a k = (Inl e, effect (LogException log_set_args) s))
   \<or> uu_set_task_arguments s task a k = (Inr (task\<lparr>args := a, kwargs := k\<rparr>), s)"
  by (auto simp: uu_set_task_arguments_def split: sum.splits)

lemma uu_activate_connect_task_modules_trace:
  "\<exists>evs. snd (uu_activate_connect_task_modules c s name task) = s\<lparr>trace := trace s @ evs\<rparr>"
proof -
  obtain evs where evs: "snd (connect_attempt c s name task) = s\<lparr>trace := trace s @ evs\<rparr>"
    using connect_attempt_trace by blast
  obtain r s1 where r: "connect_attempt c s name task = (r, s1)"
    by (cases "connect_attempt c s name task")
  with evs have s1: "s1 = s\<lparr>trace := trace s @ evs\<rparr>" by simp
  show ?thesis
  proof (cases r)
    case None
    with r s1 have "snd (uu_activate_connect_task_modules c s name task) = s\<lparr>trace := trace s @ evs\<rparr>"
      by (simp add: uu_activate_connect_task_modules_def)
    then show ?thesis by blast
  next
    case (Some e)
    with r s1 have "snd (uu_activate_connect_task_modules c s name task)
        = s\<lparr>trace := trace s @ (evs @ [LogException (log_connect name), TaskDisconnectModules task])\<rparr>"
      by (simp add: uu_activate_connect_task_modules_def effect_def)
    then show ?thesis by blast
  qed
qed

lemma uu_move_task_into_thread_cases:
  "(\<exists>e evs. uu_move_task_into_thread c s name task = (Inl e, s\<lparr>trace := trace s @ evs\<rparr>))
   \<or> (\<exists>th. get_new_thread c (''ModuleTask-'' @ name) = Inr (Some th)
         \<and> uu_move_task_into_thread c s name task
             = (Inr (task\<lparr>thread := th\<rparr>),
                s\<lparr>trace := trace s @ [GetNewThread (''ModuleTask-'' @ name), ThreadStartedConnect th,
                                       ThreadFinishedConnect th name]\<rparr>))"
proof (cases "get_new_thread c (''ModuleTask-'' @ name)")
  case (Inl e)
  then have "uu_move_task_into_thread c s name task
      = (Inl e, s\<lparr>trace := trace s @ (if is_RuntimeError e
            then [GetNewThread (''ModuleTask-'' @ name), LogException log_thread]
            else [GetNewThread (''ModuleTask-'' @ name)])\<rparr>)"
    by (simp add: uu_move_task_into_thread_def effect_def Let_def)
  then show ?thesis by blast
next
  case (Inr r)
  show ?thesis
  proof (cases r)
    case None
    with Inr have "uu_move_task_into_thread c s name task
      = (Inl (err_no_thread name),
         s\<lparr>trace := trace s @ [GetNewThread (''ModuleTask-'' @ name), LogException log_thread]\<rparr>)"
      by (simp add: uu_move_task_into_thread_def effect_def Let_def err_no_thread_def)
    then show ?thesis by blast
  next
    case (Some th)
    with Inr show ?thesis
      by (simp add: uu_move_task_into_thread_def effect_def Let_def)
  qed
qed

lemma u_run_task_effect:
  "(\<exists>e evs. u_run_task c s name a k = (Some e, s\<lparr>trace := trace s @ evs\<rparr>))
   \<or> (\<exists>ty t0 th evs. name \<notin> fst ` set (u_running_tasks s)
         \<and> map_of (u_configured_task_types s) name = Some ty \<and> instantiate ty = Inr t0
         \<and> get_new_thread c (''ModuleTask-'' @ name) = Inr (Some th)
         \<and> u_run_task c s name a k
             = (None, s\<lparr>u_running_tasks := AList.update name (started_task name t0 a k th) (u_running_tasks s),
                        trace := trace s @ evs\<rparr>))"
proof -
  let ?s0 = "effect LockAcquire s"
  consider (init_fails) e where "uu_init_task ?s0 name = (Inl e, effect (LogException (log_init name)) ?s0)"
    | (init_ok) ty t0 where "name \<notin> fst ` set (u_running_tasks ?s0)"
        "map_of (u_configured_task_types ?s0) name = Some ty" "instantiate ty = Inr t0"
        "uu_init_task ?s0 name = (Inr t0, ?s0)"
    using uu_init_task_cases [of ?s0 name] by blast
  then show ?thesis
  proof cases
    case init_fails
    then have "u_run_task c s name a k = (Some e, s\<lparr>trace := trace s @ [LockAcquire, LogException (log_init name), LockRelease]\<rparr>)"
      by (simp add: u_run_task_def with_thread_lock_def effect_def)
    then show ?thesis by blast
  next
    case init_ok
    consider (args_fail) e where "uu_set_task_arguments ?s0 t0 a k = (Inl e, effect (LogException log_set_args) ?s0)"
      | (args_ok) "uu_set_task_arguments ?s0 t0 a k = (Inr (t0\<lparr>args := a, kwargs := k\<rparr>), ?s0)"
      using uu_set_task_arguments_cases [of ?s0 t0 a k] by blast
    then show ?thesis
    proof cases
      case args_fail
      with init_ok have "u_run_task c s name a k = (Some e, s\<lparr>trace := trace s @ [LockAcquire, LogException log_set_args, LockRelease]\<rparr>)"
        by (simp add: u_run_task_def with_thread_lock_def effect_def)
      then show ?thesis by blast
    next
      case args_ok
      let ?t2 = "t0\<lparr>args := a, kwargs := k\<rparr>"
      obtain r3 s3 where r3: "uu_activate_connect_task_modules c ?s0 name ?t2 = (r3, s3)"
        by (cases "uu_activate_connect_task_modules c ?s0 name ?t2")
      obtain evs3 where "snd (uu_activate_connect_task_modules c ?s0 name ?t2) = ?s0\<lparr>trace := trace ?s0 @ evs3\<rparr>"
        using uu_activate_connect_task_modules_trace by blast
      with r3 have s3: "s3 = s\<lparr>trace := trace s @ (LockAcquire # evs3)\<rparr>"
        by (simp add: effect_def)
      show ?thesis
      proof (cases r3)
        case (Some e)
        with init_ok args_ok r3 s3
        have "u_run_task c s name a k = (Some e, s\<lparr>trace := trace s @ (LockAcquire # evs3 @ [LockRelease])\<rparr>)"
          by (simp add: u_run_task_def with_thread_lock_def effect_def)
        then show ?thesis by blast
      next
        case None
        consider (thread_fails) e evs where "uu_move_task_into_thread c s3 name ?t2 = (Inl e, s3\<lparr>trace := trace s3 @ evs\<rparr>)"
          | (thread_ok) th where "get_new_thread c (''ModuleTask-'' @ name) = Inr (Some th)"
              "uu_move_task_into_thread c s3 name ?t2
                 = (Inr (?t2\<lparr>thread := th\<rparr>),
                    s3\<lparr>trace := trace s3 @ [GetNewThread (''ModuleTask-'' @ name), ThreadStartedConnect th,
                                       ThreadFinishedConnect th name]\<rparr>)"
          using uu_move_task_into_thread_cases [of c s3 name ?t2] by blast
        then show ?thesis
        proof cases
          case thread_fails
          with init_ok args_ok r3 s3 None
          have "u_run_task c s name a k = (Some e, s\<lparr>trace := trace s @ (LockAcquire # evs3 @ evs @ [LockRelease])\<rparr>)"
            by (simp add: u_run_task_def with_thread_lock_def effect_def)
          then show ?thesis by blast
        next
          case thread_ok
          with init_ok args_ok r3 s3 None
          have "u_run_task c s name a k
             = (None, s\<lparr>u_running_tasks := AList.update name (started_task name t0 a k th) (u_running_tasks s),
                        trace := trace s @ (LockAcquire # evs3 @ [GetNewThread (''ModuleTask-'' @ name),
                           ThreadStartedConnect th, ThreadFinishedConnect th name, RunningTasksSet name,
                           ThreadStart th, SigTaskStarted name, LockRelease])\<rparr>)"
            by (simp add: u_run_task_def with_thread_lock_def effect_def uu_start_task_def
                uu_connect_task_signals_def started_task_def)
          moreover from init_ok have "name \<notin> fst ` set (u_running_tasks s)"
            "map_of (u_configured_task_types s) name = Some ty"
            by (simp_all add: effect_def)
          ultimately show ?thesis using init_ok(3) thread_ok(1) by blast
        qed
      qed
    qed
  qed
qed

lemma delete_not_in: "k \<notin> fst ` set (AList.delete k xs)"
  by (induction xs) auto

lemma keys_update: "fst ` set (AList.update k v xs) = insert k (fst ` set xs)"
  by (induction xs) auto

lemma keys_delete: "fst ` set (AList.delete k xs) = fst ` set xs - {k}"
  by (induction xs) auto

lemma configure_tasks_frame:
  "\<exists>conf. snd (configure_tasks c items s) = s\<lparr>u_configured_task_types := conf\<rparr>"
proof (induction items arbitrary: s)
  case Nil
  have "snd (configure_tasks c [] s) = s\<lparr>u_configured_task_types := u_configured_task_types s\<rparr>"
    by simp
  then show ?case by blast
next
  case (Cons item items)
  obtain name cfg where item: "item = (name, cfg)" by (cases item)
  have same: "s = s\<lparr>u_configured_task_types := u_configured_task_types s\<rparr>" by simp
  show ?case
  proof (cases "name \<in> fst ` set (u_configured_task_types s)")
    case True
    then have "snd (configure_tasks c (item # items) s) = s" by (simp add: item)
    with same show ?thesis by metis
  next
    case False
    show ?thesis
    proof (cases "resolve_task_type c cfg")
      case (Inl e)
      with False have "snd (configure_tasks c (item # items) s) = s" by (simp add: item)
      with same show ?thesis by metis
    next
      case (Inr task)
      show ?thesis
      proof (cases "is_ModuleTask task")
        case False
        with Inr \<open>name \<notin> fst ` set (u_configured_task_types s)\<close>
        have "snd (configure_tasks c (item # items) s) = s" by (simp add: item)
        with same show ?thesis by metis
      next
        case True
        let ?s' = "s\<lparr>u_configured_task_types := AList.update name task (u_configured_task_types s)\<rparr>"
        from Cons.IH [of ?s'] obtain conf where
          "snd (configure_tasks c items ?s') = ?s'\<lparr>u_configured_task_types := conf\<rparr>" by blast
        with True Inr \<open>name \<notin> fst ` set (u_configured_task_types s)\<close>
        have "snd (configure_tasks c (item # items) s) = s\<lparr>u_configured_task_types := conf\<rparr>"
          by (simp add: item)
        then show ?thesis by blast
      qed
    qed
  qed
qed

lemma on_activate_running: "u_running_tasks (snd (on_activate c s)) = []"
proof -
  let ?s0 = "s\<lparr>u_running_tasks := [], u_configured_task_types := []\<rparr>"
  obtain conf where conf: "snd (configure_tasks c (u_module_task_configs s) ?s0) = ?s0\<lparr>u_configured_task_types := conf\<rparr>"
    using configure_tasks_frame by blast
  obtain r s1 where r: "configure_tasks c (u_module_task_configs s) ?s0 = (r, s1)"
    by (cases "configure_tasks c (u_module_task_configs s) ?s0")
  with conf have "u_running_tasks s1 = []" by simp
  with r show ?thesis
    by (cases r) (simp_all add: on_activate_def)
qed

lemma run_task_trace: "\<exists>evs. snd (run_task s name a k) = s\<lparr>trace := trace s @ evs\<rparr>"
proof (cases "py_tuple a")
  case (Inl e)
  then have "snd (run_task s name a k) = s\<lparr>trace := trace s @ [LockAcquire, LockRelease]\<rparr>"
    by (simp add: run_task_def with_thread_lock_def effect_def)
  then show ?thesis by blast
next
  case (Inr a')
  show ?thesis
  proof (cases "py_dict k")
    case (Inl e)
    with Inr have "snd (run_task s name a k) = s\<lparr>trace := trace s @ [LockAcquire, LockRelease]\<rparr>"
      by (simp add: run_task_def with_thread_lock_def effect_def)
    then show ?thesis by blast
  next
    case (Inr k')
    with \<open>py_tuple a = Inr a'\<close>
    have "snd (run_task s name a k) = s\<lparr>trace := trace s @ [LockAcquire, SigStartTask name a' k', LockRelease]\<rparr>"
      by (simp add: run_task_def with_thread_lock_def effect_def)
    then show ?thesis by blast
  qed
qed

lemma interrupt_task_trace: "\<exists>evs. snd (interrupt_task s name) = s\<lparr>trace := trace s @ evs\<rparr>"
proof (cases "map_of (u_running_tasks s) name")
  case None
  then have "snd (interrupt_task s name) = s\<lparr>trace := trace s @ [LockAcquire, LockRelease]\<rparr>"
    by (simp add: interrupt_task_def with_thread_lock_def effect_def)
  then show ?thesis by blast
next
  case (Some task)
  then have "snd (interrupt_task s name) = s\<lparr>trace := trace s @ [LockAcquire, TaskInterrupt task, LockRelease]\<rparr>"
    by (simp add: interrupt_task_def with_thread_lock_def effect_def)
  then show ?thesis by blast
qed

lemma u_task_finished_callback_keys:
  "map fst (u_running_tasks (snd (u_task_finished_callback s name))) = map fst (u_running_tasks s)
   \<and> u_configured_task_types (snd (u_task_finished_callback s name)) = u_configured_task_types s"
proof (cases "map_of (u_running_tasks s) name")
  case None
  then show ?thesis
    by (simp add: u_task_finished_callback_def with_thread_lock_def effect_def)
next
  case (Some task)
  then have "name \<in> fst ` set (u_running_tasks s)"
    by (metis map_of_None_iff option.distinct(1))
  then have "\<And>v. map fst (AList.update name v (u_running_tasks s)) = map fst (u_running_tasks s)"
    by (simp add: update_keys)
  moreover have "\<And>v w. AList.update name w (AList.update name v (u_running_tasks s)) = AList.update name w (u_running_tasks s)"
    by simp
  ultimately show ?thesis using Some
    by (simp add: u_task_finished_callback_def with_thread_lock_def effect_def Let_def)
qed

lemma u_thread_finished_callback_running:
  "(u_running_tasks (snd (u_thread_finished_callback s name)) = u_running_tasks s
    \<or> u_running_tasks (snd (u_thread_finished_callback s name)) = AList.delete name (u_running_tasks s))
   \<and> u_configured_task_types (snd (u_thread_finished_callback s name)) = u_configured_task_types s"
  by (cases "map_of (u_running_tasks s) name")
     (simp_all add: u_thread_finished_callback_def with_thread_lock_def effect_def)

lemma u_run_task_running:
  "(u_running_tasks (snd (u_run_task c s name a k)) = u_running_tasks s
    \<or> (name \<in> fst ` set (u_configured_task_types s) \<and>
        (\<exists>task. u_running_tasks (snd (u_run_task c s name a k)) = AList.update name task (u_running_tasks s))))
   \<and> u_configured_task_types (snd (u_run_task c s name a k)) = u_configured_task_types s"
proof -
  from u_run_task_effect [of c s name a k]
  consider (fail) e evs where "u_run_task c s name a k = (Some e, s\<lparr>trace := trace s @ evs\<rparr>)"
    | (ok) ty task evs where "map_of (u_configured_task_types s) name = Some ty"
        "u_run_task c s name a k = (None, s\<lparr>u_running_tasks := AList.update name task (u_running_tasks s),
                        trace := trace s @ evs\<rparr>)"
    by blast
  then show ?thesis
  proof cases
    case fail
    then show ?thesis by simp
  next
    case ok
    from ok(1) have "name \<in> fst ` set (u_configured_task_types s)"
      by (metis map_of_None_iff option.distinct(1))
    with ok(2) show ?thesis by auto
  qed
qed

lemma worker_sets_result_keys:
  "map (fst \<circ> (\<lambda>(n, task). if n = name then (n, f task) else (n, task))) xs = map fst xs"
  by (induction xs) auto

lemma worker_sets_result_dom:
  "fst ` (\<lambda>(n, task). if n = name then (n, f task) else (n, task)) ` set xs = fst ` set xs"
  by (induction xs) auto

lemma apply_call_distinct:
  assumes "distinct (map fst (u_running_tasks s))"
  shows "distinct (map fst (u_running_tasks (apply_call s call)))"
proof (cases call)
  case (OnActivate c)
  then show ?thesis by (simp add: on_activate_running)
next
  case OnDeactivate
  with assms show ?thesis by (simp add: on_deactivate_def)
next
  case (RunTask name a k)
  obtain evs where "snd (run_task s name a k) = s\<lparr>trace := trace s @ evs\<rparr>"
    using run_task_trace by blast
  with assms RunTask show ?thesis by simp
next
  case (InterruptTask name)
  obtain evs where "snd (interrupt_task s name) = s\<lparr>trace := trace s @ evs\<rparr>"
    using interrupt_task_trace by blast
  with assms InterruptTask show ?thesis by simp
next
  case (URunTask c name a k)
  from u_run_task_running [of c s name a k] assms URunTask show ?thesis
    by (auto simp: distinct_update)
next
  case (TaskFinishedCallback name)
  with assms show ?thesis by (simp add: u_task_finished_callback_keys)
next
  case (ThreadFinishedCallback name)
  from u_thread_finished_callback_running [of s name] assms ThreadFinishedCallback show ?thesis
    by (auto simp: distinct_delete)
next
  case (TaskStateChangedCallback state name)
  with assms show ?thesis by (simp add: u_task_state_changed_callback_def effect_def)
next
  case (WorkerSetsResult name r ok)
  with assms show ?thesis by (simp add: worker_sets_result_keys)
qed

lemma run_calls_distinct:
  "distinct (map fst (u_running_tasks s)) \<Longrightarrow> distinct (map fst (u_running_tasks (run_calls s calls)))"
  unfolding run_calls_def
  by (induction calls arbitrary: s) (simp_all add: apply_call_distinct)

lemma apply_call_registered:
  assumes "registered s" and "call \<noteq> OnDeactivate"
  shows "registered (apply_call s call)"
proof (cases call)
  case (OnActivate c)
  then show ?thesis by (simp add: registered_def on_activate_running)
next
  case OnDeactivate
  with assms show ?thesis by simp
next
  case (RunTask name a k)
  obtain evs where "snd (run_task s name a k) = s\<lparr>trace := trace s @ evs\<rparr>"
    using run_task_trace by blast
  with assms RunTask show ?thesis by (simp add: registered_def)
next
  case (InterruptTask name)
  obtain evs where "snd (interrupt_task s name) = s\<lparr>trace := trace s @ evs\<rparr>"
    using interrupt_task_trace by blast
  with assms InterruptTask show ?thesis by (simp add: registered_def)
next
  case (URunTask c name a k)
  from u_run_task_running [of c s name a k]
  have conf: "u_configured_task_types (snd (u_run_task c s name a k)) = u_configured_task_types s"
    and "u_running_tasks (snd (u_run_task c s name a k)) = u_running_tasks s
    \<or> (name \<in> fst ` set (u_configured_task_types s) \<and>
        (\<exists>task. u_running_tasks (snd (u_run_task c s name a k)) = AList.update name task (u_running_tasks s)))"
    by simp_all
  then consider "u_running_tasks (snd (u_run_task c s name a k)) = u_running_tasks s"
    | task where "name \<in> fst ` set (u_configured_task_types s)"
        "u_running_tasks (snd (u_run_task c s name a k)) = AList.update name task (u_running_tasks s)"
    by blast
  then show ?thesis
  proof cases
    case 1
    with conf assms(1) URunTask show ?thesis by (simp add: registered_def)
  next
    case 2
    with conf assms(1) URunTask show ?thesis by (simp add: registered_def keys_update)
  qed
next
  case (TaskFinishedCallback name)
  have "fst ` set (u_running_tasks (snd (u_task_finished_callback s name))) = fst ` set (u_running_tasks s)"
    using u_task_finished_callback_keys [of s name] by (metis set_map)
  with assms TaskFinishedCallback show ?thesis
    by (simp add: registered_def u_task_finished_callback_keys)
next
  case (ThreadFinishedCallback name)
  have conf: "u_configured_task_types (snd (u_thread_finished_callback s name)) = u_configured_task_types s"
    using u_thread_finished_callback_running [of s name] by simp
  have "u_running_tasks (snd (u_thread_finished_callback s name)) = u_running_tasks s
    \<or> u_running_tasks (snd (u_thread_finished_callback s name)) = AList.delete name (u_running_tasks s)"
    using u_thread_finished_callback_running [of s name] by simp
  then have "fst ` set (u_running_tasks (snd (u_thread_finished_callback s name))) \<subseteq> fst ` set (u_running_tasks s)"
  proof
    assume "u_running_tasks (snd (u_thread_finished_callback s name)) = u_running_tasks s"
    then show ?thesis by simp
  next
    assume "u_running_tasks (snd (u_thread_finished_callback s name)) = AList.delete name (u_running_tasks s)"
    then show ?thesis by (simp add: keys_delete)
  qed
  with conf assms(1) ThreadFinishedCallback show ?thesis
    unfolding registered_def by simp
next
  case (TaskStateChangedCallback state name)
  with assms show ?thesis by (simp add: registered_def u_task_state_changed_callback_def effect_def)
next
  case (WorkerSetsResult name r ok)
  with assms show ?thesis by (simp add: registered_def worker_sets_result_dom)
qed

lemma run_calls_registered:
  "registered s \<Longrightarrow> OnDeactivate \<notin> set calls \<Longrightarrow> registered (run_calls s calls)"
  unfolding run_calls_def
  by (induction calls arbitrary: s) (auto simp: apply_call_registered)

lemma configure_tasks_None_iff:
  "(fst (configure_tasks c items s) = None)
     = (distinct (map fst items)
        \<and> (\<forall>n \<in> fst ` set items. n \<notin> fst ` set (u_configured_task_types s))
        \<and> (\<forall>(n, cfg) \<in> set items. resolves_to_ModuleTask c cfg))"
proof (induction items arbitrary: s)
  case Nil
  show ?case by simp
next
  case (Cons item items)
  obtain name cfg where item: "item = (name, cfg)" by (cases item)
  show ?case
  proof (cases "name \<in> fst ` set (u_configured_task_types s)")
    case True
    then show ?thesis by (auto simp: item)
  next
    case False
    show ?thesis
    proof (cases "resolve_task_type c cfg")
      case (Inl e)
      with False show ?thesis by (simp add: item resolves_to_ModuleTask_def)
    next
      case (Inr task)
      show ?thesis
      proof (cases "is_ModuleTask task")
        case False
        with Inr \<open>name \<notin> fst ` set (u_configured_task_types s)\<close> show ?thesis
          by (simp add: item resolves_to_ModuleTask_def)
      next
        case True
        let ?s' = "s\<lparr>u_configured_task_types := AList.update name task (u_configured_task_types s)\<rparr>"
        have step: "configure_tasks c (item # items) s = configure_tasks c items ?s'"
          using True Inr \<open>name \<notin> fst ` set (u_configured_task_types s)\<close> by (simp add: item)
        have ok: "resolves_to_ModuleTask c cfg"
          using True Inr by (simp add: resolves_to_ModuleTask_def)
        have keys: "fst ` set (u_configured_task_types ?s') = insert name (fst ` set (u_configured_task_types s))"
          by (simp add: keys_update)
        show ?thesis
          unfolding step Cons.IH [of ?s'] keys
          using ok \<open>name \<notin> fst ` set (u_configured_task_types s)\<close>
          by (auto simp: item)
      qed
    qed
  qed
qed

lemma configure_tasks_success:
  assumes "fst (configure_tasks c items s) = None"
  shows "(\<forall>(n, cfg) \<in> set items. \<exists>task. resolve_task_type c cfg = Inr task \<and> is_ModuleTask task
            \<and> map_of (u_configured_task_types (snd (configure_tasks c items s))) n = Some task)
       \<and> (\<forall>n. n \<notin> fst ` set items \<longrightarrow>
            map_of (u_configured_task_types (snd (configure_tasks c items s))) n
              = map_of (u_configured_task_types s) n)"
  using assms
proof (induction items arbitrary: s)
  case Nil
  show ?case by simp
next
  case (Cons item items)
  obtain name cfg where item: "item = (name, cfg)" by (cases item)
  from Cons.prems have "distinct (map fst (item # items))
        \<and> (\<forall>n \<in> fst ` set (item # items). n \<notin> fst ` set (u_configured_task_types s))
        \<and> (\<forall>(n, cfg) \<in> set (item # items). resolves_to_ModuleTask c cfg)"
    using configure_tasks_None_iff [of c "item # items" s] by blast
  then have all: "distinct (map fst (item # items))"
    "\<forall>n \<in> fst ` set (item # items). n \<notin> fst ` set (u_configured_task_types s)"
    "\<forall>(n, cfg) \<in> set (item # items). resolves_to_ModuleTask c cfg"
    by blast+
  from all(2) have fresh: "name \<notin> fst ` set (u_configured_task_types s)"
    by (simp add: item)
  from all(3) obtain task where task: "resolve_task_type c cfg = Inr task" "is_ModuleTask task"
    by (auto simp: item resolves_to_ModuleTask_def split: sum.splits)
  let ?s' = "s\<lparr>u_configured_task_types := AList.update name task (u_configured_task_types s)\<rparr>"
  have step: "configure_tasks c (item # items) s = configure_tasks c items ?s'"
    using task fresh by (simp add: item)
  with Cons.prems have "fst (configure_tasks c items ?s') = None" by simp
  from Cons.IH [OF this] have IH:
    "\<forall>(n, cfg) \<in> set items. \<exists>task. resolve_task_type c cfg = Inr task \<and> is_ModuleTask task
            \<and> map_of (u_configured_task_types (snd (configure_tasks c items ?s'))) n = Some task"
    "\<forall>n. n \<notin> fst ` set items \<longrightarrow>
            map_of (u_configured_task_types (snd (configure_tasks c items ?s'))) n
              = map_of (u_configured_task_types ?s') n"
    by simp_all
  from all(1) have "name \<notin> fst ` set items" by (simp add: item)
  with IH(2) have "map_of (u_configured_task_types (snd (configure_tasks c items ?s'))) name = Some task"
    by (simp add: update_conv')
  with IH task show ?case
    unfolding step by (auto simp: item update_conv')
qed

lemma configure_tasks_error:
  assumes "fst (configure_tasks c items s) = Some e"
  shows "(\<exists>n \<in> fst ` set items. e = err_duplicate n
            \<and> (n \<in> fst ` set (u_configured_task_types s) \<or> \<not> distinct (map fst items)))
       \<or> (\<exists>(n, cfg) \<in> set items. resolve_task_type c cfg = Inl e)
       \<or> (e = err_not_ModuleTask
            \<and> (\<exists>(n, cfg) \<in> set items. \<exists>task. resolve_task_type c cfg = Inr task \<and> \<not> is_ModuleTask task))"
  using assms
proof (induction items arbitrary: s)
  case Nil
  then show ?case by simp
next
  case (Cons item items)
  obtain name cfg where item: "item = (name, cfg)" by (cases item)
  show ?case
  proof (cases "name \<in> fst ` set (u_configured_task_types s)")
    case True
    with Cons.prems have "e = err_duplicate name" by (simp add: item)
    with True show ?thesis by (auto simp: item)
  next
    case False
    show ?thesis
    proof (cases "resolve_task_type c cfg")
      case (Inl e')
      with False Cons.prems have "e = e'" by (simp add: item)
      with Inl show ?thesis by (auto simp: item)
    next
      case (Inr task)
      show ?thesis
      proof (cases "is_ModuleTask task")
        case False
        with Inr \<open>name \<notin> fst ` set (u_configured_task_types s)\<close> Cons.prems
        have "e = err_not_ModuleTask" by (simp add: item)
        with False Inr show ?thesis by (auto simp: item)
      next
        case True
        let ?s' = "s\<lparr>u_configured_task_types := AList.update name task (u_configured_task_types s)\<rparr>"
        have step: "configure_tasks c (item # items) s = configure_tasks c items ?s'"
          using True Inr \<open>name \<notin> fst ` set (u_configured_task_types s)\<close> by (simp add: item)
        with Cons.prems have "fst (configure_tasks c items ?s') = Some e" by simp
        from Cons.IH [OF this]
        consider (dup) n where "n \<in> fst ` set items" "e = err_duplicate n"
            "n \<in> fst ` set (u_configured_task_types ?s') \<or> \<not> distinct (map fst items)"
          | (imp) "\<exists>(n, cfg) \<in> set items. resolve_task_type c cfg = Inl e"
          | (cls) "e = err_not_ModuleTask"
              "\<exists>(n, cfg) \<in> set items. \<exists>task. resolve_task_type c cfg = Inr task \<and> \<not> is_ModuleTask task"
          by blast
        then show ?thesis
        proof cases
          case dup
          from dup(3) have "n \<in> fst ` set (u_configured_task_types s) \<or> \<not> distinct (map fst (item # items))"
            using dup(1) by (auto simp: item keys_update)
          with dup(1,2) show ?thesis by (auto simp: item)
        next
          case imp
          then show ?thesis by (auto simp: item)
        next
          case cls
          then show ?thesis by (auto simp: item)
        qed
      qed
    qed
  qed
qed

lemma on_activate_fst:
  "fst (on_activate c s)
     = fst (configure_tasks c (u_module_task_configs s) (s\<lparr>u_running_tasks := [], u_configured_task_types := []\<rparr>))"
  by (simp add: on_activate_def split: prod.splits option.splits)

lemma on_activate_configured:
  "u_configured_task_types (snd (on_activate c s))
     = u_configured_task_types (snd (configure_tasks c (u_module_task_configs s)
          (s\<lparr>u_running_tasks := [], u_configured_task_types := []\<rparr>)))"
  by (simp add: on_activate_def split: prod.splits option.splits)

section \<open>Interrupting\<close>

text \<open>
  Claim C7. \<^verbatim>\<open>interrupt_task(name)\<close> raises the \<^verbatim>\<open>RuntimeError\<close> "No ModuleTask with name
  ... running" exactly when \<open>name\<close> has no entry in the running-task dictionary. When
  there is an entry, \<^verbatim>\<open>interrupt()\<close> is called on the task stored there and nothing is
  raised. The dictionary is the same afterwards in both cases; the state changes by the
  lock events and the call only.
\<close>

theorem interrupt_task_spec:
  "(map_of (u_running_tasks s) name = None \<longrightarrow>
      interrupt_task s name = (Some (err_not_running name), s\<lparr>trace := trace s @ [LockAcquire, LockRelease]\<rparr>))
   \<and> (\<forall>task. map_of (u_running_tasks s) name = Some task \<longrightarrow>
      interrupt_task s name = (None, s\<lparr>trace := trace s @ [LockAcquire, TaskInterrupt task, LockRelease]\<rparr>))
   \<and> ((fst (interrupt_task s name) = Some (err_not_running name)) = (map_of (u_running_tasks s) name = None))
   \<and> u_running_tasks (snd (interrupt_task s name)) = u_running_tasks s"
  by (cases "map_of (u_running_tasks s) name")
     (simp_all add: interrupt_task_def with_thread_lock_def effect_def)

theorem interrupt_task_spec_witness:
  "interrupt_task example_state ''echo''
     = (None, example_state\<lparr>trace := [LockAcquire, TaskInterrupt example_running, LockRelease]\<rparr>)
   \<and> fst (interrupt_task example_state ''other'') = Some (err_not_running ''other'')"
  using interrupt_task_spec [of example_state "''echo''"] interrupt_task_spec [of example_state "''other''"]
  by (simp add: example_state_def)

section \<open>Stale callbacks\<close>

text \<open>
  Claim C10. When \<^verbatim>\<open>_task_finished_callback\<close> or \<^verbatim>\<open>_thread_finished_callback\<close> is called for
  a name without an entry in the running-task dictionary, it raises nothing and does
  nothing but take and release the lock: no signal is disconnected, no module is
  disconnected, no thread is stopped, no entry is removed and nothing is published.
\<close>

theorem stale_callbacks_are_noops:
  "map_of (u_running_tasks s) name = None \<Longrightarrow>
     u_task_finished_callback s name = (None, s\<lparr>trace := trace s @ [LockAcquire, LockRelease]\<rparr>)
   \<and> u_thread_finished_callback s name = (None, s\<lparr>trace := trace s @ [LockAcquire, LockRelease]\<rparr>)"
  by (simp add: u_task_finished_callback_def u_thread_finished_callback_def with_thread_lock_def effect_def)

theorem stale_callbacks_are_noops_witness:
  "u_task_finished_callback example_state ''other'' = (None, example_state\<lparr>trace := [LockAcquire, LockRelease]\<rparr>)
   \<and> u_thread_finished_callback example_state ''other'' = (None, example_state\<lparr>trace := [LockAcquire, LockRelease]\<rparr>)"
  using stale_callbacks_are_noops [of example_state "''other''"]
  by (simp add: example_state_def)

section \<open>Completion and termination\<close>

text \<open>
  Claim C2. Let a task be running under \<open>name\<close>, with the runner's slots connected to its
  signals as the start sequence leaves them. When its completion callback and then its
  thread's termination callback run, the events are, in this order: the task's modules
  are disconnected, its thread is quit and joined, the entry is removed from the
  running-task dictionary, and \<^verbatim>\<open>sigTaskFinished(name, result, success)\<close> is emitted with the
  task's result and success flag. It is emitted exactly once. Afterwards the name has no
  entry, so the running check of \<^verbatim>\<open>__init_task\<close> passes for it: a new start is decided by
  the registry lookup and the constructor, never by "already initialized".
\<close>

theorem finished_published_once:
  assumes "map_of (u_running_tasks s) name = Some task"
      and "sigFinished task \<noteq> []" and "sigStateChanged task \<noteq> []"
  shows "fst (u_task_finished_callback s name) = None
   \<and> fst (u_thread_finished_callback (snd (u_task_finished_callback s name)) name) = None
   \<and> new_events s (completion_then_termination s name) =
       [LockAcquire, TaskDisconnectModules (task\<lparr>sigFinished := [], sigStateChanged := []\<rparr>),
        QuitThread (thread task), JoinThread (thread task), LockRelease,
        LockAcquire, RunningTasksPop name, SigTaskFinished name (result task) (success task), LockRelease]
   \<and> filter is_SigTaskFinished (new_events s (completion_then_termination s name))
        = [SigTaskFinished name (result task) (success task)]
   \<and> u_running_tasks (completion_then_termination s name) = AList.delete name (u_running_tasks s)
   \<and> name \<notin> fst ` set (u_running_tasks (completion_then_termination s name))
   \<and> fst (uu_init_task (completion_then_termination s name) name)
        = (case map_of (u_configured_task_types s) name of None \<Rightarrow> Inl (KeyError name) | Some ty \<Rightarrow> instantiate ty)"
  using assms
  by (simp add: u_task_finished_callback_def u_thread_finished_callback_def with_thread_lock_def
      effect_def new_events_def Let_def update_conv' delete_update_same delete_not_in uu_init_task_def
      completion_then_termination_def
      split: sum.splits option.splits)

theorem finished_published_once_witness:
  "new_events example_state (completion_then_termination example_state ''echo'') =
       [LockAcquire, TaskDisconnectModules (example_running\<lparr>sigFinished := [], sigStateChanged := []\<rparr>),
        QuitThread ''ModuleTask-echo'', JoinThread ''ModuleTask-echo'', LockRelease,
        LockAcquire, RunningTasksPop ''echo'', SigTaskFinished ''echo'' (PyInt 42) True, LockRelease]
   \<and> u_running_tasks (completion_then_termination example_state ''echo'') = []
   \<and> fst (uu_init_task (completion_then_termination example_state ''echo'') ''echo'') = Inr example_task"
  using finished_published_once [of example_state "''echo''" example_running]
  by (simp add: example_state_def example_running_def example_type_def)

section \<open>The lock and the join\<close>

text \<open>
  Claim C4, as amended. The completion callback \<^verbatim>\<open>_task_finished_callback\<close> holds the lock
  for its whole body: for a running task with connected signals it raises nothing, and
  \<^verbatim>\<open>thread_manager.join_thread(task.thread())\<close>, the wait for the worker thread to exit, happens
  while the lock is held.
\<close>

theorem join_under_lock:
  assumes "map_of (u_running_tasks s) name = Some task"
      and "sigFinished task \<noteq> []" and "sigStateChanged task \<noteq> []"
  shows "fst (u_task_finished_callback s name) = None
   \<and> JoinThread (thread task) \<in> set (held_events False (new_events s (snd (u_task_finished_callback s name))))"
  using assms
  by (simp add: u_task_finished_callback_def with_thread_lock_def
      effect_def new_events_def Let_def)

theorem join_under_lock_witness:
  "JoinThread ''ModuleTask-echo''
     \<in> set (held_events False (new_events example_state (snd (u_task_finished_callback example_state ''echo''))))"
  using join_under_lock [of example_state "''echo''" example_running]
  by (simp add: example_state_def example_running_def)

text \<open>The claim as stated, that the join is never performed while the lock is held, fails
  for the completion callback of the running task of the example.\<close>

theorem join_under_lock_counterexample:
  "\<not> join_outside_lock (trace (snd (u_task_finished_callback example_state ''echo'')))"
  by (simp add: join_outside_lock_def u_task_finished_callback_def with_thread_lock_def effect_def
      example_state_def example_running_def Let_def)

section \<open>One running task per name\<close>

text \<open>
  Claim C1. In every state that the runner reaches from its construction by any sequence
  of calls of its entry points, the running-task dictionary has at most one entry per
  name. A start request (\<^verbatim>\<open>_run_task\<close>) for a name that has an entry is rejected with the
  \<^verbatim>\<open>RuntimeError\<close> "ModuleTask ... is already initialized": the exception is logged and the
  state is otherwise unchanged. Hence, after a start of a name has succeeded, a second
  start of that name is rejected, whatever its arguments and collaborators.
\<close>

theorem at_most_one_running_entry:
  "distinct (map fst (u_running_tasks (run_calls (TaskRunner_init cfgs) calls)))
   \<and> (name \<in> fst ` set (u_running_tasks s) \<longrightarrow>
        u_run_task c s name a k
          = (Some (err_already_initialized name),
             s\<lparr>trace := trace s @ [LockAcquire, LogException (log_init name), LockRelease]\<rparr>))
   \<and> (\<forall>s'. u_run_task c s name a k = (None, s') \<longrightarrow>
        fst (u_run_task c' s' name a' k') = Some (err_already_initialized name))"
proof -
  have inv: "distinct (map fst (u_running_tasks (run_calls (TaskRunner_init cfgs) calls)))"
    by (rule run_calls_distinct) (simp add: TaskRunner_init_def)
  have reject: "u_run_task c s name a k
          = (Some (err_already_initialized name),
             s\<lparr>trace := trace s @ [LockAcquire, LogException (log_init name), LockRelease]\<rparr>)"
    if "name \<in> fst ` set (u_running_tasks s)" for c s a k
    using that by (simp add: u_run_task_def with_thread_lock_def uu_init_task_def effect_def)
  have second: "fst (u_run_task c' s' name a' k') = Some (err_already_initialized name)"
    if ok: "u_run_task c s name a k = (None, s')" for s'
  proof -
    from u_run_task_effect [of c s name a k] ok
    obtain task evs where "s' = s\<lparr>u_running_tasks := AList.update name task (u_running_tasks s),
                        trace := trace s @ evs\<rparr>"
      by auto
    then have "name \<in> fst ` set (u_running_tasks s')"
      by (simp add: keys_update)
    then show ?thesis by (simp add: reject)
  qed
  from inv reject second show ?thesis by blast
qed

theorem at_most_one_running_entry_witness:
  "distinct (map fst (u_running_tasks (run_calls (TaskRunner_init example_cfgs)
       [OnActivate example_collaborators,
        URunTask example_collaborators ''echo'' (PyTuple [PyInt 42]) (PyDict []),
        URunTask example_collaborators ''echo'' (PyTuple [PyInt 7]) (PyDict [])])))
   \<and> u_run_task example_collaborators example_state ''echo'' (PyTuple [PyInt 7]) (PyDict [])
        = (Some (err_already_initialized ''echo''),
           example_state\<lparr>trace := [LockAcquire, LogException (log_init ''echo''), LockRelease]\<rparr>)"
  using at_most_one_running_entry [of example_cfgs
       "[OnActivate example_collaborators,
        URunTask example_collaborators ''echo'' (PyTuple [PyInt 42]) (PyDict []),
        URunTask example_collaborators ''echo'' (PyTuple [PyInt 7]) (PyDict [])]"
       "''echo''" example_state example_collaborators "PyTuple [PyInt 7]" "PyDict []"]
  by (simp add: example_state_def)

section \<open>Unknown task names\<close>

text \<open>
  Claim C6. In a state where every running name is a configured one, a start request for
  a name that is not in the configured task types raises \<^verbatim>\<open>KeyError(name)\<close>. The exception
  is logged, no entry is added to the running-task dictionary, and none of
  \<^verbatim>\<open>sigTaskStarted\<close>, \<^verbatim>\<open>sigTaskStateChanged\<close>, \<^verbatim>\<open>sigTaskFinished\<close> is emitted.
\<close>

theorem unknown_task_rejected:
  assumes "registered s" and "name \<notin> fst ` set (u_configured_task_types s)"
  shows "u_run_task c s name a k
          = (Some (KeyError name),
             s\<lparr>trace := trace s @ [LockAcquire, LogException (log_init name), LockRelease]\<rparr>)
   \<and> u_running_tasks (snd (u_run_task c s name a k)) = u_running_tasks s
   \<and> \<not> list_ex is_published (new_events s (snd (u_run_task c s name a k)))"
proof -
  from assms have "name \<notin> fst ` set (u_running_tasks s)"
    by (auto simp: registered_def)
  moreover from assms(2) have "map_of (u_configured_task_types s) name = None"
    by (simp add: map_of_None_iff)
  ultimately have "u_run_task c s name a k
          = (Some (KeyError name),
             s\<lparr>trace := trace s @ [LockAcquire, LogException (log_init name), LockRelease]\<rparr>)"
    by (simp add: u_run_task_def with_thread_lock_def uu_init_task_def effect_def)
  then show ?thesis by (simp add: new_events_def)
qed

theorem unknown_task_rejected_witness:
  "registered example_state
   \<and> u_run_task example_collaborators example_state ''unknown'' (PyTuple []) (PyDict [])
      = (Some (KeyError ''unknown''),
         example_state\<lparr>trace := [LockAcquire, LogException (log_init ''unknown''), LockRelease]\<rparr>)"
proof -
  have r: "registered example_state"
    by (simp add: registered_def example_state_def)
  have n: "''unknown'' \<notin> fst ` set (u_configured_task_types example_state)"
    by (simp add: example_state_def)
  from unknown_task_rejected [OF r n, of example_collaborators "PyTuple []" "PyDict []"] r
  show ?thesis by (simp add: example_state_def)
qed

section \<open>The state-changed relay\<close>

text \<open>
  Claim C8. \<^verbatim>\<open>_task_state_changed_callback(state, name)\<close> emits
  \<^verbatim>\<open>sigTaskStateChanged(name, state)\<close> with the state it was given, and does nothing else.
  After a successful start of a fresh task instance, that callback, bound to the task's
  name, is the slot connected to the task's \<^verbatim>\<open>sigStateChanged\<close>; so a state-changed
  notification of the task is published once, with the task's name and the same state.
\<close>

theorem state_changed_relay:
  "u_task_state_changed_callback s state name = s\<lparr>trace := trace s @ [SigTaskStateChanged name state]\<rparr>
   \<and> (\<forall>ty t0 s1. u_run_task c s0 name a k = (None, s1)
         \<and> map_of (u_configured_task_types s0) name = Some ty \<and> instantiate ty = Inr t0
         \<and> sigStateChanged t0 = [] \<longrightarrow>
        (\<exists>task. map_of (u_running_tasks s1) name = Some task
           \<and> sigStateChanged task = [name]
           \<and> sigStateChanged_emit s task state = s\<lparr>trace := trace s @ [SigTaskStateChanged name state]\<rparr>))"
proof -
  have cb: "u_task_state_changed_callback s state name = s\<lparr>trace := trace s @ [SigTaskStateChanged name state]\<rparr>"
    by (simp add: u_task_state_changed_callback_def effect_def)
  have "\<exists>task. map_of (u_running_tasks s1) name = Some task
           \<and> sigStateChanged task = [name]
           \<and> sigStateChanged_emit s task state = s\<lparr>trace := trace s @ [SigTaskStateChanged name state]\<rparr>"
    if ok: "u_run_task c s0 name a k = (None, s1)"
      and ty: "map_of (u_configured_task_types s0) name = Some ty" "instantiate ty = Inr t0"
      and fresh: "sigStateChanged t0 = []" for ty t0 s1
  proof -
    from u_run_task_effect [of c s0 name a k] ok ty
    obtain th evs where s1: "s1 = s0\<lparr>u_running_tasks := AList.update name (started_task name t0 a k th) (u_running_tasks s0),
                        trace := trace s0 @ evs\<rparr>"
      by auto
    let ?task = "started_task name t0 a k th"
    from s1 have "map_of (u_running_tasks s1) name = Some ?task"
      by (simp add: update_conv')
    moreover from fresh have slots: "sigStateChanged ?task = [name]"
      by (simp add: started_task_def)
    moreover from slots have "sigStateChanged_emit s ?task state = s\<lparr>trace := trace s @ [SigTaskStateChanged name state]\<rparr>"
      by (simp add: sigStateChanged_emit_def cb)
    ultimately show ?thesis by blast
  qed
  with cb show ?thesis by blast
qed

theorem state_changed_relay_witness:
  "\<exists>task. map_of (u_running_tasks (snd (u_run_task example_collaborators
              (example_state\<lparr>u_running_tasks := []\<rparr>) ''echo'' (PyTuple [PyInt 42]) (PyDict [])))) ''echo'' = Some task
     \<and> sigStateChanged task = [''echo'']
     \<and> sigStateChanged_emit example_state task ''running''
         = example_state\<lparr>trace := trace example_state @ [SigTaskStateChanged ''echo'' ''running'']\<rparr>"
proof -
  let ?s0 = "example_state\<lparr>u_running_tasks := []\<rparr>"
  obtain s1 where ok: "u_run_task example_collaborators ?s0 ''echo'' (PyTuple [PyInt 42]) (PyDict []) = (None, s1)"
    by (simp add: u_run_task_def with_thread_lock_def uu_init_task_def effect_def example_state_def
        example_type_def example_cfgs_def example_collaborators_def uu_set_task_arguments_def
        uu_activate_connect_task_modules_def connect_attempt_def uu_move_task_into_thread_def Let_def)
  have ty: "map_of (u_configured_task_types ?s0) ''echo'' = Some example_type"
    "instantiate example_type = Inr example_task" "sigStateChanged example_task = []"
    by (simp_all add: example_state_def example_type_def example_task_def)
  from state_changed_relay [of example_state "''running''" "''echo''" example_collaborators ?s0
      "PyTuple [PyInt 42]" "PyDict []"] ok ty
  show ?thesis by auto
qed

section \<open>Failure of the module connection\<close>

text \<open>
  Claim C5. Let a start request pass \<^verbatim>\<open>__init_task\<close> and \<^verbatim>\<open>__set_task_arguments\<close>, and let
  the \<^verbatim>\<open>try\<close> block of \<^verbatim>\<open>__activate_connect_task_modules\<close> raise \<open>e\<close> (a module that is
  missing or fails to activate at any position of the \<^verbatim>\<open>'connect'\<close> mapping, or
  \<^verbatim>\<open>connect_modules\<close> itself). Then the exception is logged, \<^verbatim>\<open>task.disconnect_modules()\<close> is
  called, and only then \<open>e\<close> leaves \<^verbatim>\<open>_run_task\<close>. Besides lock, log and that call, the
  events are those of the connection attempt: no thread is requested, nothing is
  published, and the running-task dictionary is unchanged. The caller of \<^verbatim>\<open>run_task\<close> got
  no exception: for these arguments \<^verbatim>\<open>run_task\<close> only emits the start signal.
\<close>

theorem connection_failure_aborts_start:
  assumes "name \<notin> fst ` set (u_running_tasks s)"
      and "map_of (u_configured_task_types s) name = Some ty" and "instantiate ty = Inr t0"
      and "list_all is_str (map fst kvs)"
      and "connect_attempt c (effect LockAcquire s) name (t0\<lparr>args := PyTuple xs, kwargs := PyDict kvs\<rparr>) = (Some e, s1)"
  shows "u_run_task c s name (PyTuple xs) (PyDict kvs)
           = (Some e, s1\<lparr>trace := trace s1 @ [LogException (log_connect name),
                 TaskDisconnectModules (t0\<lparr>args := PyTuple xs, kwargs := PyDict kvs\<rparr>), LockRelease]\<rparr>)
   \<and> (\<exists>evs. list_all is_connection evs
         \<and> new_events s (snd (u_run_task c s name (PyTuple xs) (PyDict kvs)))
             = LockAcquire # evs @ [LogException (log_connect name),
                 TaskDisconnectModules (t0\<lparr>args := PyTuple xs, kwargs := PyDict kvs\<rparr>), LockRelease])
   \<and> u_running_tasks (snd (u_run_task c s name (PyTuple xs) (PyDict kvs))) = u_running_tasks s
   \<and> run_task s name (PyTuple xs) (PyDict kvs)
        = (None, s\<lparr>trace := trace s @ [LockAcquire, SigStartTask name (PyTuple xs) (PyDict kvs), LockRelease]\<rparr>)"
proof -
  let ?s0 = "effect LockAcquire s"
  let ?t = "t0\<lparr>args := PyTuple xs, kwargs := PyDict kvs\<rparr>"
  from assms(1-3) have init: "uu_init_task ?s0 name = (Inr t0, ?s0)"
    by (simp add: uu_init_task_def effect_def)
  from assms(4) have setargs: "uu_set_task_arguments ?s0 t0 (PyTuple xs) (PyDict kvs) = (Inr ?t, ?s0)"
    by (simp add: uu_set_task_arguments_def)
  from assms(5) have conn: "uu_activate_connect_task_modules c ?s0 name ?t
      = (Some e, effect (TaskDisconnectModules ?t) (effect (LogException (log_connect name)) s1))"
    by (simp add: uu_activate_connect_task_modules_def)
  from init setargs conn have run: "u_run_task c s name (PyTuple xs) (PyDict kvs)
           = (Some e, s1\<lparr>trace := trace s1 @ [LogException (log_connect name), TaskDisconnectModules ?t, LockRelease]\<rparr>)"
    by (simp add: u_run_task_def with_thread_lock_def effect_def)
  obtain evs where evs: "snd (connect_attempt c ?s0 name ?t) = ?s0\<lparr>trace := trace ?s0 @ evs\<rparr>"
      "list_all is_connection evs"
    using connect_attempt_trace by blast
  with assms(5) have s1: "s1 = s\<lparr>trace := trace s @ LockAcquire # evs\<rparr>"
    by (simp add: effect_def)
  from run s1 have "new_events s (snd (u_run_task c s name (PyTuple xs) (PyDict kvs)))
             = LockAcquire # evs @ [LogException (log_connect name), TaskDisconnectModules ?t, LockRelease]"
    by (simp add: new_events_def)
  moreover from run s1 have "u_running_tasks (snd (u_run_task c s name (PyTuple xs) (PyDict kvs))) = u_running_tasks s"
    by simp
  moreover have "run_task s name (PyTuple xs) (PyDict kvs)
        = (None, s\<lparr>trace := trace s @ [LockAcquire, SigStartTask name (PyTuple xs) (PyDict kvs), LockRelease]\<rparr>)"
    by (simp add: run_task_def with_thread_lock_def effect_def py_tuple_def py_dict_def)
  ultimately show ?thesis using run evs(2) by blast
qed

theorem connection_failure_aborts_start_witness:
  "u_run_task example_collaborators (example_state\<lparr>u_running_tasks := []\<rparr>) ''c'' (PyTuple []) (PyDict [])
     = (Some (KeyError ''m2''),
        example_state\<lparr>u_running_tasks := [],
          trace := [LockAcquire, ModuleActivate ''m1'', LogException (log_connect ''c''),
                    TaskDisconnectModules (example_task\<lparr>args := PyTuple [], kwargs := PyDict []\<rparr>), LockRelease]\<rparr>)"
proof -
  let ?s = "example_state\<lparr>u_running_tasks := []\<rparr>"
  have 1: "''c'' \<notin> fst ` set (u_running_tasks ?s)" by simp
  have 2: "map_of (u_configured_task_types ?s) ''c'' = Some example_type"
    by (simp add: example_state_def)
  have 3: "instantiate example_type = Inr example_task"
    by (simp add: example_type_def)
  have 4: "list_all is_str (map fst ([] :: (pyval \<times> pyval) list))" by simp
  have 5: "connect_attempt example_collaborators (effect LockAcquire ?s) ''c''
             (example_task\<lparr>args := PyTuple [], kwargs := PyDict []\<rparr>)
           = (Some (KeyError ''m2''), ?s\<lparr>trace := [LockAcquire, ModuleActivate ''m1'']\<rparr>)"
    by (simp add: connect_attempt_def effect_def example_state_def example_cfgs_def example_collaborators_def)
  from connection_failure_aborts_start [OF 1 2 3 4 5]
  show ?thesis by simp
qed

section \<open>Validation of the arguments\<close>

text \<open>
  Claim C3, as amended. \<^verbatim>\<open>run_task\<close> converts \<^verbatim>\<open>args\<close> with \<^verbatim>\<open>tuple()\<close> and \<^verbatim>\<open>kwargs\<close> with
  \<^verbatim>\<open>dict()\<close>. When a conversion raises, which it does for every \<^verbatim>\<open>args\<close> that is not
  iterable, the caller gets that exception, no start signal is emitted and the state
  changes by the lock events only. Otherwise \<^verbatim>\<open>run_task\<close> raises nothing and emits the
  start signal with the converted values, whatever the keys of \<^verbatim>\<open>kwargs\<close> are. The check
  that the keys are strings is made by the start sequence: for arguments that fail the
  checks of \<^verbatim>\<open>__set_task_arguments\<close>, \<^verbatim>\<open>_run_task\<close> raises, the exception is logged, and
  besides the lock and the log nothing happens: no module is activated or connected and
  the running-task dictionary is unchanged.
\<close>

theorem run_task_validation:
  "(\<forall>e. py_tuple a = Inl e \<longrightarrow>
      run_task s name a k = (Some e, s\<lparr>trace := trace s @ [LockAcquire, LockRelease]\<rparr>))
   \<and> (\<forall>a' e. py_tuple a = Inr a' \<and> py_dict k = Inl e \<longrightarrow>
      run_task s name a k = (Some e, s\<lparr>trace := trace s @ [LockAcquire, LockRelease]\<rparr>))
   \<and> (\<forall>a' k'. py_tuple a = Inr a' \<and> py_dict k = Inr k' \<longrightarrow>
      run_task s name a k = (None, s\<lparr>trace := trace s @ [LockAcquire, SigStartTask name a' k', LockRelease]\<rparr>))
   \<and> (\<not> is_Iterable a \<longrightarrow> (\<exists>e. py_tuple a = Inl e))
   \<and> (\<not> is_Iterable qa \<or> \<not> is_Mapping qk \<or> \<not> all_str_keys qk \<longrightarrow>
        (\<exists>e msg. u_run_task c s name qa qk
            = (Some e, s\<lparr>trace := trace s @ [LockAcquire, LogException msg, LockRelease]\<rparr>)))"
proof -
  have 1: "run_task s name a k = (Some e, s\<lparr>trace := trace s @ [LockAcquire, LockRelease]\<rparr>)"
    if "py_tuple a = Inl e" for e
    using that by (simp add: run_task_def with_thread_lock_def effect_def)
  have 2: "run_task s name a k = (Some e, s\<lparr>trace := trace s @ [LockAcquire, LockRelease]\<rparr>)"
    if "py_tuple a = Inr a'" "py_dict k = Inl e" for a' e
    using that by (simp add: run_task_def with_thread_lock_def effect_def)
  have 3: "run_task s name a k = (None, s\<lparr>trace := trace s @ [LockAcquire, SigStartTask name a' k', LockRelease]\<rparr>)"
    if "py_tuple a = Inr a'" "py_dict k = Inr k'" for a' k'
    using that by (simp add: run_task_def with_thread_lock_def effect_def)
  have 4: "\<exists>e. py_tuple a = Inl e" if "\<not> is_Iterable a"
    using that by (cases a) (simp_all add: py_tuple_def)
  have 5: "\<exists>e msg. u_run_task c s name qa qk
            = (Some e, s\<lparr>trace := trace s @ [LockAcquire, LogException msg, LockRelease]\<rparr>)"
    if bad: "\<not> is_Iterable qa \<or> \<not> is_Mapping qk \<or> \<not> all_str_keys qk"
  proof -
    let ?s0 = "effect LockAcquire s"
    consider (init_fails) e where "uu_init_task ?s0 name = (Inl e, effect (LogException (log_init name)) ?s0)"
      | (init_ok) t0 where "uu_init_task ?s0 name = (Inr t0, ?s0)"
      using uu_init_task_cases [of ?s0 name] by blast
    then show ?thesis
    proof cases
      case init_fails
      then have "u_run_task c s name qa qk
          = (Some e, s\<lparr>trace := trace s @ [LockAcquire, LogException (log_init name), LockRelease]\<rparr>)"
        by (simp add: u_run_task_def with_thread_lock_def effect_def)
      then show ?thesis by blast
    next
      case init_ok
      from bad have "uu_set_task_arguments ?s0 t0 qa qk
          = (Inl (if \<not> is_Iterable qa then err_args else err_kwargs), effect (LogException log_set_args) ?s0)"
        by (auto simp: uu_set_task_arguments_def)
      with init_ok have "u_run_task c s name qa qk
          = (Some (if \<not> is_Iterable qa then err_args else err_kwargs),
             s\<lparr>trace := trace s @ [LockAcquire, LogException log_set_args, LockRelease]\<rparr>)"
        by (simp add: u_run_task_def with_thread_lock_def effect_def)
      then show ?thesis by blast
    qed
  qed
  from 1 2 3 4 5 show ?thesis by blast
qed

theorem run_task_validation_witness:
  "run_task example_state ''echo'' (PyInt 3) (PyDict [])
     = (Some (TypeError ''object is not iterable''), example_state\<lparr>trace := [LockAcquire, LockRelease]\<rparr>)
   \<and> run_task example_state ''echo'' (PyList []) (PyInt 3)
     = (Some (TypeError ''object is not iterable''), example_state\<lparr>trace := [LockAcquire, LockRelease]\<rparr>)
   \<and> run_task example_state ''echo'' (PyList [PyInt 42]) (PyList [])
     = (None, example_state\<lparr>trace := [LockAcquire, SigStartTask ''echo'' (PyTuple [PyInt 42]) (PyDict []), LockRelease]\<rparr>)
   \<and> (\<exists>e msg. u_run_task example_collaborators example_state ''c'' (PyTuple []) (PyDict [(PyInt 1, PyInt 2)])
         = (Some e, example_state\<lparr>trace := [LockAcquire, LogException msg, LockRelease]\<rparr>))"
  using run_task_validation [of "PyInt 3" example_state "''echo''" "PyDict []"]
        run_task_validation [of "PyList []" example_state "''echo''" "PyInt 3"]
        run_task_validation [of "PyList [PyInt 42]" example_state "''echo''" "PyList []"]
        run_task_validation [of "PyList []" example_state "''c''" "PyList []" "PyTuple []"
           "PyDict [(PyInt 1, PyInt 2)]" example_collaborators]
  by (simp add: py_tuple_def py_dict_def example_state_def)

text \<open>The claim as stated fails for a \<^verbatim>\<open>kwargs\<close> with the key \<^verbatim>\<open>1\<close>: \<^verbatim>\<open>run_task\<close> raises
  nothing and emits the start signal.\<close>

theorem run_task_validation_counterexample:
  "spec_ordered_sequence (PyTuple [])
   \<and> \<not> spec_string_keyed_mapping (PyDict [(PyInt 1, PyInt 2)])
   \<and> run_task example_state ''echo'' (PyTuple []) (PyDict [(PyInt 1, PyInt 2)])
       = (None, example_state\<lparr>trace :=
            [LockAcquire, SigStartTask ''echo'' (PyTuple []) (PyDict [(PyInt 1, PyInt 2)]), LockRelease]\<rparr>)"
  by (simp add: spec_string_keyed_mapping_def run_task_def with_thread_lock_def effect_def
      py_tuple_def py_dict_def example_state_def)

section \<open>Building the registry\<close>

text \<open>
  Claim C9. \<^verbatim>\<open>on_activate\<close> succeeds exactly when no task name occurs twice among the
  configured items and every item's class resolves to a subclass of \<^verbatim>\<open>ModuleTask\<close>; in every
  other case it raises. When it succeeds, every configured name is mapped to the class
  its item resolves to, which is a \<^verbatim>\<open>ModuleTask\<close> subclass, no other name is mapped, and no
  task is running. When it raises, the exception is the \<^verbatim>\<open>KeyError\<close> for a repeated name,
  or what resolving a class raised, or the \<^verbatim>\<open>TypeError\<close> for a class that is not a
  \<^verbatim>\<open>ModuleTask\<close>. The items are those that \<^verbatim>\<open>items()\<close> yields, in order; for a \<^verbatim>\<open>dict\<close> they
  have distinct names.
\<close>

theorem on_activate_registry:
  "((fst (on_activate c s) = None)
      = (distinct (map fst (u_module_task_configs s))
         \<and> (\<forall>(n, cfg) \<in> set (u_module_task_configs s). resolves_to_ModuleTask c cfg)))
   \<and> (fst (on_activate c s) = None \<longrightarrow>
        (\<forall>(n, cfg) \<in> set (u_module_task_configs s).
            \<exists>task. resolve_task_type c cfg = Inr task \<and> is_ModuleTask task
              \<and> map_of (u_configured_task_types (snd (on_activate c s))) n = Some task)
        \<and> (\<forall>n. n \<notin> fst ` set (u_module_task_configs s) \<longrightarrow>
              map_of (u_configured_task_types (snd (on_activate c s))) n = None)
        \<and> u_running_tasks (snd (on_activate c s)) = [])
   \<and> (\<forall>e. fst (on_activate c s) = Some e \<longrightarrow>
        (\<exists>n \<in> fst ` set (u_module_task_configs s).
            e = err_duplicate n \<and> \<not> distinct (map fst (u_module_task_configs s)))
        \<or> (\<exists>(n, cfg) \<in> set (u_module_task_configs s). resolve_task_type c cfg = Inl e)
        \<or> (e = err_not_ModuleTask
            \<and> (\<exists>(n, cfg) \<in> set (u_module_task_configs s).
                  \<exists>task. resolve_task_type c cfg = Inr task \<and> \<not> is_ModuleTask task)))"
proof -
  let ?s0 = "s\<lparr>u_running_tasks := [], u_configured_task_types := []\<rparr>"
  let ?items = "u_module_task_configs s"
  have iff: "(fst (on_activate c s) = None)
      = (distinct (map fst ?items) \<and> (\<forall>(n, cfg) \<in> set ?items. resolves_to_ModuleTask c cfg))"
    unfolding on_activate_fst configure_tasks_None_iff by simp
  have ok: "(\<forall>(n, cfg) \<in> set ?items.
            \<exists>task. resolve_task_type c cfg = Inr task \<and> is_ModuleTask task
              \<and> map_of (u_configured_task_types (snd (on_activate c s))) n = Some task)
        \<and> (\<forall>n. n \<notin> fst ` set ?items \<longrightarrow>
              map_of (u_configured_task_types (snd (on_activate c s))) n = None)
        \<and> u_running_tasks (snd (on_activate c s)) = []"
    if "fst (on_activate c s) = None"
  proof -
    from that have "fst (configure_tasks c ?items ?s0) = None"
      by (simp add: on_activate_fst)
    from configure_tasks_success [OF this] show ?thesis
      unfolding on_activate_configured by (simp add: on_activate_running)
  qed
  have err: "(\<exists>n \<in> fst ` set ?items. e = err_duplicate n \<and> \<not> distinct (map fst ?items))
        \<or> (\<exists>(n, cfg) \<in> set ?items. resolve_task_type c cfg = Inl e)
        \<or> (e = err_not_ModuleTask
            \<and> (\<exists>(n, cfg) \<in> set ?items. \<exists>task. resolve_task_type c cfg = Inr task \<and> \<not> is_ModuleTask task))"
    if "fst (on_activate c s) = Some e" for e
  proof -
    from that have "fst (configure_tasks c ?items ?s0) = Some e"
      by (simp add: on_activate_fst)
    from configure_tasks_error [OF this] show ?thesis by simp
  qed
  from iff ok err show ?thesis by blast
qed

theorem on_activate_registry_witness:
  "fst (on_activate example_collaborators (TaskRunner_init example_cfgs)) = None
   \<and> map_of (u_configured_task_types (snd (on_activate example_collaborators (TaskRunner_init example_cfgs)))) ''c''
        = Some example_type
   \<and> fst (on_activate example_collaborators (TaskRunner_init (example_cfgs @ example_cfgs)))
        = Some (err_duplicate ''echo'')
   \<and> fst (on_activate (example_collaborators\<lparr>import_module_script := (\<lambda>mod_name cls. Inr example_not_a_task)\<rparr>)
             (TaskRunner_init example_cfgs))
        = Some err_not_ModuleTask"
proof -
  have r: "resolve_task_type example_collaborators cfg = Inr example_type"
    if "(n, cfg) \<in> set example_cfgs" for n cfg
    using that
    by (auto simp: example_cfgs_def resolve_task_type_def rsplit1_def example_collaborators_def)
  have r': "resolve_task_type (example_collaborators\<lparr>import_module_script := (\<lambda>mod_name cls. Inr example_not_a_task)\<rparr>) cfg
                = Inr example_not_a_task"
    if "(n, cfg) \<in> set example_cfgs" for n cfg
    using that
    by (auto simp: example_cfgs_def resolve_task_type_def rsplit1_def example_collaborators_def)
  have ok: "\<forall>(n, cfg) \<in> set example_cfgs. resolves_to_ModuleTask example_collaborators cfg"
    using r by (auto simp: resolves_to_ModuleTask_def example_type_def)
  have d: "distinct (map fst example_cfgs)" by (simp add: example_cfgs_def)
  have c: "(''c'', \<lparr>module_Class = Some ''tasks.c.C'',
               connect = Some [(''first'', ''m1''), (''second'', ''m2''), (''third'', ''m3'')]\<rparr>) \<in> set example_cfgs"
    by (simp add: example_cfgs_def)
  note thm1 = on_activate_registry [of example_collaborators "TaskRunner_init example_cfgs"]
  from thm1 ok d have 1: "fst (on_activate example_collaborators (TaskRunner_init example_cfgs)) = None"
    by (simp add: TaskRunner_init_def)
  from thm1 1 c r [OF c]
  have 2: "map_of (u_configured_task_types (snd (on_activate example_collaborators (TaskRunner_init example_cfgs)))) ''c''
        = Some example_type"
    by (auto simp: TaskRunner_init_def)
  have 3: "fst (on_activate example_collaborators (TaskRunner_init (example_cfgs @ example_cfgs)))
        = Some (err_duplicate ''echo'')"
    by (simp add: on_activate_def TaskRunner_init_def example_cfgs_def resolve_task_type_def rsplit1_def
        example_collaborators_def example_type_def)
  have 4: "fst (on_activate (example_collaborators\<lparr>import_module_script := (\<lambda>mod_name cls. Inr example_not_a_task)\<rparr>)
             (TaskRunner_init example_cfgs))
        = Some err_not_ModuleTask"
    by (simp add: on_activate_def TaskRunner_init_def example_cfgs_def resolve_task_type_def rsplit1_def
        example_collaborators_def example_not_a_task_def)
  from 1 2 3 4 show ?thesis by blast
qed

end
